theory Spec2Isabelle
  imports Main "HOL-Library.Word"
begin

unbundle bit_operations_syntax

section \<open>Go values\<close>

text \<open>
  A Go \<open>string\<close> is a sequence of bytes; it is modelled as a \<open>string\<close> (a list of 8-bit
  characters). A \<open>[]byte\<close> is a list of 8-bit words. A \<open>map[string]string\<close> is a partial
  function with the empty string standing for a missing key only where the source reads the
  map with a plain index expression.
\<close>

type_synonym byte = "8 word"
type_synonym uint16 = "16 word"
type_synonym uint32 = "32 word"

text \<open>
  Errors. \<open>errors.New\<close> and \<open>fmt.Errorf\<close> build an error that is its message. The error of
  \<open>http.NewRequest\<close> for a method that is no token names the method. The errors of the \<open>os\<close>
  package (\<open>Stat\<close>, \<open>ReadFile\<close>, \<open>Read\<close>) are path errors, those of \<open>net/url\<close> and of the HTTP
  client are URL errors; both carry the operation and the path or URL.
\<close>

datatype error =
    ErrorString string
  | InvalidMethod string
  | PathError string string
  | URLError string string

subsection \<open>Package strings\<close>

definition isASCII :: "char \<Rightarrow> bool" where
  "isASCII c = ((of_char c :: nat) < 128)"

definition toUpperByte :: "char \<Rightarrow> char" where
  "toUpperByte c = (let n = (of_char c :: nat) in if 97 \<le> n \<and> n \<le> 122 then char_of (n - 32) else c)"

definition toLowerByte :: "char \<Rightarrow> char" where
  "toLowerByte c = (let n = (of_char c :: nat) in if 65 \<le> n \<and> n \<le> 90 then char_of (n + 32) else c)"

text \<open>
  \<open>strings.ToUpper\<close>: a string of ASCII bytes only is mapped byte by byte; any other string
  goes through \<open>strings.Map(unicode.ToUpper, s)\<close>, whose Unicode tables belong to the Go
  runtime and are a parameter here.
\<close>

definition ToUpper :: "(string \<Rightarrow> string) \<Rightarrow> string \<Rightarrow> string" where
  "ToUpper unicodeUpper s = (if list_all isASCII s then map toUpperByte s else unicodeUpper s)"

definition HasPrefix :: "string \<Rightarrow> string \<Rightarrow> bool" where
  "HasPrefix s prefix = (length prefix \<le> length s \<and> take (length prefix) s = prefix)"

definition TrimPrefix :: "string \<Rightarrow> string \<Rightarrow> string" where
  "TrimPrefix s prefix = (if HasPrefix s prefix then drop (length prefix) s else s)"

section \<open>Digest and encoding\<close>

subsection \<open>MD5 (package crypto/md5, RFC 1321)\<close>

definition rotl :: "uint32 \<Rightarrow> nat \<Rightarrow> uint32" where
  "rotl x n = push_bit n x OR drop_bit (32 - n) x"

definition md5_shifts :: "nat list" where
  "md5_shifts = [7, 12, 17, 22, 7, 12, 17, 22, 7, 12, 17, 22, 7, 12, 17, 22,
                 5, 9, 14, 20, 5, 9, 14, 20, 5, 9, 14, 20, 5, 9, 14, 20,
                 4, 11, 16, 23, 4, 11, 16, 23, 4, 11, 16, 23, 4, 11, 16, 23,
                 6, 10, 15, 21, 6, 10, 15, 21, 6, 10, 15, 21, 6, 10, 15, 21]"

definition md5_table :: "uint32 list" where
  "md5_table = [
    0xd76aa478, 0xe8c7b756, 0x242070db, 0xc1bdceee, 0xf57c0faf, 0x4787c62a, 0xa8304613, 0xfd469501,
    0x698098d8, 0x8b44f7af, 0xffff5bb1, 0x895cd7be, 0x6b901122, 0xfd987193, 0xa679438e, 0x49b40821,
    0xf61e2562, 0xc040b340, 0x265e5a51, 0xe9b6c7aa, 0xd62f105d, 0x02441453, 0xd8a1e681, 0xe7d3fbc8,
    0x21e1cde6, 0xc33707d6, 0xf4d50d87, 0x455a14ed, 0xa9e3e905, 0xfcefa3f8, 0x676f02d9, 0x8d2a4c8a,
    0xfffa3942, 0x8771f681, 0x6d9d6122, 0xfde5380c, 0xa4beea44, 0x4bdecfa9, 0xf6bb4b60, 0xbebfbc70,
    0x289b7ec6, 0xeaa127fa, 0xd4ef3085, 0x04881d05, 0xd9d4d039, 0xe6db99e5, 0x1fa27cf8, 0xc4ac5665,
    0xf4292244, 0x432aff97, 0xab9423a7, 0xfc93a039, 0x655b59c3, 0x8f0ccc92, 0xffeff47d, 0x85845dd1,
    0x6fa87e4f, 0xfe2ce6e0, 0xa3014314, 0x4e0811a1, 0xf7537e82, 0xbd3af235, 0x2ad7d2bb, 0xeb86d391]"

text \<open>The 32-bit little-endian words of a block; a tail of fewer than four bytes is dropped.\<close>

fun le_words :: "byte list \<Rightarrow> uint32 list" where
  "le_words (b0 # b1 # b2 # b3 # bs) =
     (ucast b0 OR push_bit 8 (ucast b1) OR push_bit 16 (ucast b2) OR push_bit 24 (ucast b3))
       # le_words bs"
| "le_words _ = []"

type_synonym md5_state = "uint32 \<times> uint32 \<times> uint32 \<times> uint32"

definition md5_round :: "uint32 list \<Rightarrow> md5_state \<Rightarrow> nat \<Rightarrow> md5_state" where
  "md5_round m st i = (case st of (a, b, c, d) \<Rightarrow>
     let f = (if i < 16 then (b AND c) OR (NOT b AND d)
              else if i < 32 then (d AND b) OR (NOT d AND c)
              else if i < 48 then b XOR c XOR d
              else c XOR (b OR NOT d));
         g = (if i < 16 then i
              else if i < 32 then (5 * i + 1) mod 16
              else if i < 48 then (3 * i + 5) mod 16
              else (7 * i) mod 16)
     in (d, b + rotl (f + a + md5_table ! i + m ! g) (md5_shifts ! i), b, c))"

definition md5_block :: "md5_state \<Rightarrow> byte list \<Rightarrow> md5_state" where
  "md5_block st blk = (case st of (a0, b0, c0, d0) \<Rightarrow>
     case foldl (md5_round (le_words blk)) st [0..<64] of (a, b, c, d) \<Rightarrow>
       (a0 + a, b0 + b, c0 + c, d0 + d))"

function md5_blocks :: "md5_state \<Rightarrow> byte list \<Rightarrow> md5_state" where
  "md5_blocks st bs =
     (if length bs < 64 then st else md5_blocks (md5_block st (take 64 bs)) (drop 64 bs))"
  by pat_completeness auto
termination
  by (relation "measure (\<lambda>(st, bs). length bs)") auto

declare md5_blocks.simps [simp del]

definition le_bytes :: "nat \<Rightarrow> nat \<Rightarrow> byte list" where
  "le_bytes n x = map (\<lambda>i. of_nat (x div 256 ^ i)) [0..<n]"

text \<open>
  Padding: the byte \<open>0x80\<close>, zero bytes up to 56 modulo 64, and the length of the message in
  bits as a 64-bit little-endian number.
\<close>

definition md5_pad :: "byte list \<Rightarrow> byte list" where
  "md5_pad msg = (let n = length msg in
     msg @ [0x80] @ replicate ((55 + 64 - n mod 64) mod 64) 0 @ le_bytes 8 ((8 * n) mod 2 ^ 64))"

definition md5_sum :: "byte list \<Rightarrow> byte list" where
  "md5_sum msg =
     (case md5_blocks (0x67452301, 0xefcdab89, 0x98badcfe, 0x10325476) (md5_pad msg) of
        (a, b, c, d) \<Rightarrow> concat (map (\<lambda>w. le_bytes 4 (unat w)) [a, b, c, d]))"

subsection \<open>Base64 (package encoding/base64, the standard encoding with padding)\<close>

definition encodeStd :: string where
  "encodeStd = ''ABCDEFGHIJKLMNOPQRSTUVWXYZabcdefghijklmnopqrstuvwxyz0123456789+/''"

definition b64 :: "byte \<Rightarrow> char" where
  "b64 v = encodeStd ! unat (v AND 0x3F)"

fun EncodeToString :: "byte list \<Rightarrow> string" where
  "EncodeToString (x # y # z # rest) =
     [b64 (drop_bit 2 x),
      b64 (push_bit 4 x OR drop_bit 4 y),
      b64 (push_bit 2 y OR drop_bit 6 z),
      b64 z] @ EncodeToString rest"
| "EncodeToString [x, y] =
     [b64 (drop_bit 2 x), b64 (push_bit 4 x OR drop_bit 4 y), b64 (push_bit 2 y), CHR ''='']"
| "EncodeToString [x] = [b64 (drop_bit 2 x), b64 (push_bit 4 x), CHR ''='', CHR ''='']"
| "EncodeToString [] = []"

text \<open>The conversion \<open>string(md5)\<close> of a byte slice to a string keeps the bytes.\<close>

definition string_of_bytes :: "byte list \<Rightarrow> string" where
  "string_of_bytes bs = map (\<lambda>b. char_of (unat b)) bs"

section \<open>Files\<close>

text \<open>
  An \<open>*os.File\<close> open on a regular file, as the uploader's contract requires (an open, seekable
  handle): its content, its read position, and the two ways the operating system can fail on
  it, reading its metadata and reading its content. A read that fails leaves the handle as it
  is. \<open>Seek(0, 0)\<close> on a regular file moves the position to the start.
\<close>

record File =
  content :: "byte list"
  offset :: nat
  stat_err :: "error option"
  read_err :: "error option"

record FileInfo =
  Size :: int

definition Stat :: "File \<Rightarrow> error + FileInfo" where
  "Stat f = (case stat_err f of Some err \<Rightarrow> Inl err | None \<Rightarrow> Inr \<lparr>Size = int (length (content f))\<rparr>)"

text \<open>Reading a handle to the end, as \<open>io.Copy\<close> does: the bytes from the read position on.\<close>

definition ReadToEnd :: "File \<Rightarrow> (error + byte list) \<times> File" where
  "ReadToEnd f =
     (case read_err f of
        Some err \<Rightarrow> (Inl err, f)
      | None \<Rightarrow> (Inr (drop (offset f) (content f)),
                 f\<lparr>offset := max (offset f) (length (content f))\<rparr>))"

definition Seek :: "File \<Rightarrow> nat \<Rightarrow> File" where
  "Seek f pos = f\<lparr>offset := pos\<rparr>"

subsection \<open>ComputeMD5\<close>

definition ComputeMD5 :: "File \<Rightarrow> bool \<Rightarrow> (error + string) \<times> File" where
  "ComputeMD5 f encodeBase64 =
     (case ReadToEnd f of
        (Inl err, f1) \<Rightarrow> (Inl err, f1)
      | (Inr written, f1) \<Rightarrow>
          let md5 = md5_sum written;
              f2 = Seek f1 0
          in if \<not> encodeBase64 then (Inr (string_of_bytes md5), f2)
             else (let encoded = EncodeToString md5 in (Inr encoded, f2)))"


section \<open>The Go packages the uploader calls\<close>

subsection \<open>Package net/url and net/http\<close>

record URL =
  Scheme :: string
  Host :: string
  Path :: string

text \<open>
  The bytes of an HTTP token (RFC 7230): the bytes a method and a canonical header name are
  made of.
\<close>

definition isTokenByte :: "char \<Rightarrow> bool" where
  "isTokenByte c = (let n = (of_char c :: nat) in
     (48 \<le> n \<and> n \<le> 57) \<or> (65 \<le> n \<and> n \<le> 90) \<or> (97 \<le> n \<and> n \<le> 122)
     \<or> c \<in> set ''!#$%&*+-.^_`|~'' \<or> n = 39)"

definition validMethod :: "string \<Rightarrow> bool" where
  "validMethod m = (0 < length m \<and> list_all isTokenByte m)"

text \<open>
  \<open>textproto.CanonicalMIMEHeaderKey\<close>: a name made of token bytes only gets its first letter
  and every letter after a hyphen in upper case and every other letter in lower case; any
  other name is returned as it is.
\<close>

fun canonicalize :: "bool \<Rightarrow> string \<Rightarrow> string" where
  "canonicalize upper [] = []"
| "canonicalize upper (c # cs) =
     (let c' = (if upper then toUpperByte c else toLowerByte c)
      in c' # canonicalize (c' = CHR ''-'') cs)"

definition CanonicalMIMEHeaderKey :: "string \<Rightarrow> string" where
  "CanonicalMIMEHeaderKey s = (if list_all isTokenByte s then canonicalize True s else s)"

type_synonym Header = "string \<rightharpoonup> string list"

definition Header_Set :: "Header \<Rightarrow> string \<Rightarrow> string \<Rightarrow> Header" where
  "Header_Set h key value = h(CanonicalMIMEHeaderKey key \<mapsto> [value])"

definition Header_Get :: "Header \<Rightarrow> string \<Rightarrow> string" where
  "Header_Get h key =
     (case h (CanonicalMIMEHeaderKey key) of
        None \<Rightarrow> []
      | Some [] \<Rightarrow> []
      | Some (v # vs) \<Rightarrow> v)"

record Request =
  Method :: string
  Target :: URL
  Header :: Header
  Body :: File
  ContentLength :: int

record Response =
  StatusCode :: int
  Status :: string

subsection \<open>Package crypto/tls and crypto/x509\<close>

definition VersionTLS12 :: uint16 where "VersionTLS12 = 0x0303"
definition VersionTLS13 :: uint16 where "VersionTLS13 = 0x0304"

text \<open>A certificate pool is the list of the PEM texts appended to it.\<close>

datatype CertPool = CertPool "byte list list"

definition NewCertPool :: CertPool where
  "NewCertPool = CertPool []"

fun AppendCertsFromPEM :: "CertPool \<Rightarrow> byte list \<Rightarrow> CertPool" where
  "AppendCertsFromPEM (CertPool pems) pem = CertPool (pems @ [pem])"

record Config =
  InsecureSkipVerify :: bool
  RootCAs :: "CertPool option"
  MinVersion :: uint16
  MaxVersion :: uint16
  CipherSuites :: "uint16 list"

record Transport =
  TLSClientConfig :: "Config option"

subsection \<open>The platform\<close>

text \<open>
  What the uploader reads of the Go runtime and of the machine: the Unicode upper-case mapping
  behind \<open>strings.ToUpper\<close>, the list \<open>tls.CipherSuites()\<close>, the parser \<open>url.Parse\<close>, the file
  system behind \<open>ioutil.ReadFile\<close>, and the network behind \<open>http.Client.Do\<close>.
\<close>

record CipherSuite =
  ID :: uint16
  Name :: string

record Platform =
  unicode_ToUpper :: "string \<Rightarrow> string"
  tls_CipherSuites :: "CipherSuite list"
  url_Parse :: "string \<Rightarrow> error + URL"
  ioutil_ReadFile :: "string \<Rightarrow> error + byte list"
  client_Do :: "Transport \<Rightarrow> Request \<Rightarrow> error + Response"


text \<open>
  \<open>http.NewRequest\<close> (the standard library's): an empty method stands for \<open>GET\<close>, a method that
  is no token is refused, and the URL is parsed with \<open>url.Parse\<close>, whose error is returned.
\<close>

definition NewRequest :: "Platform \<Rightarrow> string \<Rightarrow> string \<Rightarrow> File \<Rightarrow> error + Request" where
  "NewRequest env method' url' body =
     (let m = (if method' = [] then ''GET'' else method') in
      if \<not> validMethod m then Inl (InvalidMethod m)
      else case url_Parse env url' of
             Inl err \<Rightarrow> Inl err
           | Inr u \<Rightarrow> Inr \<lparr>Method = m, Target = u, Header = Map.empty, Body = body,
                          ContentLength = 0\<rparr>)"

subsection \<open>Package fmt\<close>

text \<open>The verb \<open>%d\<close>: an integer in decimal.\<close>

function utoa :: "nat \<Rightarrow> string" where
  "utoa n = (if n < 10 then [char_of (48 + n)] else utoa (n div 10) @ [char_of (48 + n mod 10)])"
  by pat_completeness auto
termination
  by (relation "measure (\<lambda>n. n)") auto

declare utoa.simps [simp del]

definition Itoa :: "int \<Rightarrow> string" where
  "Itoa i = (if i < 0 then CHR ''-'' # utoa (nat (- i)) else utoa (nat i))"

section \<open>The uploader\<close>

definition URLProp :: string where "URLProp = ''https.url''"
definition MethodProp :: string where "MethodProp = ''https.method''"
definition HeadersPrefix :: string where "HeadersPrefix = ''https.header.''"
definition ContentMD5 :: string where "ContentMD5 = ''Content-MD5''"

record HTTPUploader =
  url :: string
  headers :: "string \<rightharpoonup> string"
  method' :: string
  serverCert :: string
  cipherSuites :: "uint16 list"

subsection \<open>ExtractDictionary\<close>

text \<open>
  \<open>for key, value := range options\<close> visits the keys of the map in an order the runtime
  chooses. The order is the argument \<open>ks\<close>: a list of the keys of the map. A name in \<open>ks\<close>
  that is no key of the map is skipped.
\<close>

definition ExtractDictionary :: "string list \<Rightarrow> (string \<rightharpoonup> string) \<Rightarrow> string \<Rightarrow> (string \<rightharpoonup> string)" where
  "ExtractDictionary ks options prefix =
     foldl (\<lambda>info key.
              case options key of
                None \<Rightarrow> info
              | Some value \<Rightarrow>
                  if HasPrefix key prefix
                  then (let newKey = TrimPrefix key prefix in info(newKey \<mapsto> value))
                  else info)
       Map.empty ks"

subsection \<open>NewHTTPUploader\<close>

text \<open>
  \<open>options[URLProp]\<close> is the empty string for a missing key;
  \<open>method, ok := options[MethodProp]\<close> tells a missing key from an empty value.
\<close>

definition SupportedCipherSuites :: "Platform \<Rightarrow> uint16 list" where
  "SupportedCipherSuites env = (let cs = tls_CipherSuites env in map ID cs)"

definition NewHTTPUploader ::
    "Platform \<Rightarrow> string list \<Rightarrow> (string \<rightharpoonup> string) \<Rightarrow> string \<Rightarrow> error + HTTPUploader" where
  "NewHTTPUploader env ks options serverCert' =
     (let url' = (case options URLProp of None \<Rightarrow> [] | Some v \<Rightarrow> v) in
      if url' = [] then Inl (ErrorString ''upload URL not specified'')
      else
        let method' = (case options MethodProp of
                         None \<Rightarrow> ''PUT''
                       | Some m \<Rightarrow> ToUpper (unicode_ToUpper env) m) in
        if method' \<noteq> ''PUT'' \<and> method' \<noteq> ''POST''
        then Inl (ErrorString (''unsupported HTTP method: '' @ method'))
        else
          let headers' = ExtractDictionary ks options HeadersPrefix in
          Inr \<lparr>url = url', headers = headers', method' = method',
               serverCert = serverCert', cipherSuites = SupportedCipherSuites env\<rparr>)"

subsection \<open>getHTTPTransport\<close>

definition getHTTPTransport :: "Platform \<Rightarrow> HTTPUploader \<Rightarrow> error + Transport" where
  "getHTTPTransport env u =
     (case (if length (serverCert u) > 0
            then (case ioutil_ReadFile env (serverCert u) of
                    Inl err \<Rightarrow> Inl err
                  | Inr caCert \<Rightarrow> Inr (Some (AppendCertsFromPEM NewCertPool caCert)))
            else Inr None) of
        Inl err \<Rightarrow> Inl err
      | Inr caCertPool \<Rightarrow>
          let config = \<lparr>InsecureSkipVerify = False,
                        RootCAs = caCertPool,
                        MinVersion = VersionTLS12,
                        MaxVersion = VersionTLS13,
                        CipherSuites = cipherSuites u\<rparr>
          in Inr \<lparr>TLSClientConfig = Some config\<rparr>)"

subsection \<open>UploadFile\<close>

text \<open>
  A call returns an error (\<open>None\<close> for \<open>nil\<close>) or panics. Beside that, a call leaves a trace:
  the requests it handed to the network with what came back for each, and the state of the
  caller that the progress listener works on. The listener \<open>func(bytesTransferred int64)\<close> is
  a function of the reported number on that state.
\<close>

datatype outcome = Returns "error option" | Panics

record 's Result =
  outcome :: outcome
  exchanges :: "(Transport \<times> Request \<times> (error + Response)) list"
  listened :: 's

text \<open>
  The loop \<open>for name, value := range u.headers { req.Header.Set(name, value) }\<close>; \<open>hs\<close> is the
  order in which it visits the header names.
\<close>

definition setHeaders :: "string list \<Rightarrow> (string \<rightharpoonup> string) \<Rightarrow> Request \<Rightarrow> Request" where
  "setHeaders hs hdrs req =
     foldl (\<lambda>r name. case hdrs name of
                         None \<Rightarrow> r
                       | Some value \<Rightarrow> r\<lparr>Header := Header_Set (Header r) name value\<rparr>)
       req hs"

text \<open>
  The request refers to the file handle, so its body is the handle as it is when the request
  is sent. A \<open>url.Parse\<close> that fails returns a nil URL, and reading its scheme panics.
\<close>

definition UploadFile ::
    "Platform \<Rightarrow> string list \<Rightarrow> HTTPUploader \<Rightarrow> File \<Rightarrow> bool \<Rightarrow> (int \<Rightarrow> 's \<Rightarrow> 's) \<Rightarrow> 's \<Rightarrow> 's Result" where
  "UploadFile env hs u file useChecksum listener s =
     (case Stat file of
        Inl err \<Rightarrow> \<lparr>outcome = Returns (Some err), exchanges = [], listened = s\<rparr>
      | Inr stats \<Rightarrow>
     (case NewRequest env (method' u) (url u) file of
        Inl err \<Rightarrow> \<lparr>outcome = Returns (Some err), exchanges = [], listened = s\<rparr>
      | Inr req \<Rightarrow>
     (case url_Parse env (url u) of
        Inl _ \<Rightarrow> \<lparr>outcome = Panics, exchanges = [], listened = s\<rparr>
      | Inr parsedURL \<Rightarrow>
     (case (if Scheme parsedURL = ''https'' then getHTTPTransport env u
            else Inr \<lparr>TLSClientConfig = None\<rparr>) of
        Inl err \<Rightarrow> \<lparr>outcome = Returns (Some err), exchanges = [], listened = s\<rparr>
      | Inr transport \<Rightarrow>
     (let req1 = req\<lparr>Header := Header_Set (Header req) ''Content-Type'' ''application/x-binary''\<rparr>;
          req2 = setHeaders hs (headers u) req1
      in
     (case (if useChecksum
            then (case ComputeMD5 file True of
                    (Inl err, file') \<Rightarrow> Inl err
                  | (Inr md5, file') \<Rightarrow>
                      Inr (req2\<lparr>Header := Header_Set (Header req2) ContentMD5 md5\<rparr>, file'))
            else Inr (req2, file)) of
        Inl err \<Rightarrow> \<lparr>outcome = Returns (Some err), exchanges = [], listened = s\<rparr>
      | Inr (req3, file') \<Rightarrow>
     (let req4 = req3\<lparr>ContentLength := Size stats, Body := file'\<rparr> in
      case client_Do env transport req4 of
        Inl err \<Rightarrow> \<lparr>outcome = Returns (Some err),
                     exchanges = [(transport, req4, Inl err)], listened = s\<rparr>
      | Inr resp \<Rightarrow>
          if StatusCode resp < 200 \<or> StatusCode resp > 299
          then \<lparr>outcome = Returns (Some (ErrorString
                    (''upload failed - code: '' @ Itoa (StatusCode resp)
                       @ '', status: '' @ Status resp))),
                exchanges = [(transport, req4, Inr resp)], listened = s\<rparr>
          else \<lparr>outcome = Returns None,
                exchanges = [(transport, req4, Inr resp)], listened = s\<rparr>)))))))"

subsection \<open>Parts of UploadFile\<close>

text \<open>
  Three parts of \<open>UploadFile\<close> under names of their own, for the proofs: what the call returns
  for what came back from the network (lines 145 to 155), the choice of the transport by the
  scheme (lines 119 to 125), and the request with the content type and the custom headers set
  (lines 127 to 130). \<open>requests\<close> lists the requests of a call's trace.
\<close>

definition classify :: "error + Response \<Rightarrow> error option" where
  "classify x = (case x of
      Inl err \<Rightarrow> Some err
    | Inr resp \<Rightarrow>
        if StatusCode resp < 200 \<or> StatusCode resp > 299
        then Some (ErrorString (''upload failed - code: '' @ Itoa (StatusCode resp)
                       @ '', status: '' @ Status resp))
        else None)"

definition chooseTransport :: "Platform \<Rightarrow> HTTPUploader \<Rightarrow> URL \<Rightarrow> error + Transport" where
  "chooseTransport env u parsedURL =
     (if Scheme parsedURL = ''https'' then getHTTPTransport env u
      else Inr \<lparr>TLSClientConfig = None\<rparr>)"

definition withHeaders :: "string list \<Rightarrow> HTTPUploader \<Rightarrow> Request \<Rightarrow> Request" where
  "withHeaders hs u req = setHeaders hs (headers u)
     (req\<lparr>Header := Header_Set (Header req) ''Content-Type'' ''application/x-binary''\<rparr>)"

definition requests :: "'s Result \<Rightarrow> Request list" where
  "requests r = map (\<lambda>(t, q, x). q) (exchanges r)"

text \<open>The value of the checksum header of a request, as \<open>Header.Get\<close> reads it.\<close>

definition checksumHeader :: "Request \<Rightarrow> string" where
  "checksumHeader q = Header_Get (Header q) ContentMD5"

section \<open>A sample platform\<close>

text \<open>
  A platform to run the model on: ASCII-only upper-casing, two cipher suites, two URLs that
  parse, no readable certificate file, and an endpoint that answers \<open>201 Created\<close>.
\<close>

definition sample_Parse :: "string \<Rightarrow> error + URL" where
  "sample_Parse s =
     (if s = ''http://example.test/upload''
      then Inr \<lparr>Scheme = ''http'', Host = ''example.test'', Path = ''/upload''\<rparr>
      else if s = ''https://example.test/upload''
      then Inr \<lparr>Scheme = ''https'', Host = ''example.test'', Path = ''/upload''\<rparr>
      else Inl (URLError ''parse'' s))"

definition sample_platform :: Platform where
  "sample_platform =
     \<lparr>unicode_ToUpper = (\<lambda>s. s),
      tls_CipherSuites = [\<lparr>ID = 0x1301, Name = ''TLS_AES_128_GCM_SHA256''\<rparr>,
                          \<lparr>ID = 0xc02f, Name = ''TLS_ECDHE_RSA_WITH_AES_128_GCM_SHA256''\<rparr>],
      url_Parse = sample_Parse,
      ioutil_ReadFile = (\<lambda>p. Inl (PathError ''open'' p)),
      client_Do = (\<lambda>t q. Inr \<lparr>StatusCode = 201, Status = ''201 Created''\<rparr>)\<rparr>"

definition sample_options :: "string \<rightharpoonup> string" where
  "sample_options = [''https.url'' \<mapsto> ''http://example.test/upload'']"

definition sample_file :: "byte list \<Rightarrow> File" where
  "sample_file bs = \<lparr>content = bs, offset = 0, stat_err = None, read_err = None\<rparr>"

text \<open>A listener that records every value it is called with.\<close>

definition record_progress :: "int \<Rightarrow> int list \<Rightarrow> int list" where
  "record_progress bytesTransferred seen = seen @ [bytesTransferred]"

definition sample_uploader :: HTTPUploader where
  "sample_uploader =
     \<lparr>url = ''http://example.test/upload'', headers = Map.empty, method' = ''PUT'',
      serverCert = [], cipherSuites = [0x1301, 0xc02f]\<rparr>"

definition plain_transport :: Transport where
  "plain_transport = \<lparr>TLSClientConfig = None\<rparr>"

definition sample_request :: "byte list \<Rightarrow> Request" where
  "sample_request bs =
     \<lparr>Method = ''PUT'',
      Target = \<lparr>Scheme = ''http'', Host = ''example.test'', Path = ''/upload''\<rparr>,
      Header = [''Content-Type'' \<mapsto> [''application/x-binary'']],
      Body = sample_file bs, ContentLength = int (length bs)\<rparr>"

definition created :: Response where
  "created = \<lparr>StatusCode = 201, Status = ''201 Created''\<rparr>"

definition unavailable :: Response where
  "unavailable = \<lparr>StatusCode = 503, Status = ''503 Service Unavailable''\<rparr>"

text \<open>Uploaders for an \<open>https\<close> URL and with custom headers, and what the sample upload sends.\<close>

definition https_uploader :: "string \<Rightarrow> HTTPUploader" where
  "https_uploader cert = sample_uploader\<lparr>url := ''https://example.test/upload'', serverCert := cert\<rparr>"

definition https_request :: "byte list \<Rightarrow> Request" where
  "https_request bs = (sample_request bs)
     \<lparr>Target := \<lparr>Scheme = ''https'', Host = ''example.test'', Path = ''/upload''\<rparr>\<rparr>"

definition https_transport :: Transport where
  "https_transport =
     \<lparr>TLSClientConfig = Some \<lparr>InsecureSkipVerify = False, RootCAs = None,
        MinVersion = 0x0303, MaxVersion = 0x0304, CipherSuites = [0x1301, 0xc02f]\<rparr>\<rparr>"

definition md5_uploader :: HTTPUploader where
  "md5_uploader = sample_uploader\<lparr>headers := [''Content-MD5'' \<mapsto> ''DMF1ucDxtqgxw5niaXcmYQ=='']\<rparr>"

definition foo_uploader :: HTTPUploader where
  "foo_uploader = sample_uploader\<lparr>headers := [''x-foo'' \<mapsto> ''bar'']\<rparr>"

section \<open>Properties\<close>

subsection \<open>Test vectors\<close>

lemma upt_16: "[0..<16] = [0,1,2,3,4,5,6,7,8,9,10,11,12,13,14,15]"
  by code_simp

lemma upt_32: "[16..<32] = [16,17,18,19,20,21,22,23,24,25,26,27,28,29,30,31]"
  by code_simp

lemma upt_48: "[32..<48] = [32,33,34,35,36,37,38,39,40,41,42,43,44,45,46,47]"
  by code_simp

lemma upt_64: "[48..<64] = [48,49,50,51,52,53,54,55,56,57,58,59,60,61,62,63]"
  by code_simp

lemma upt_rounds: "[0..<64] = [0..<16] @ [16..<32] @ [32..<48] @ [48..<64]"
proof -
  have "[0..<64] = [0..<16] @ [16..<64]"
    using upt_add_eq_append [of 0 16 48] by simp
  also have "[16..<64] = [16..<32] @ [32..<64]"
    using upt_add_eq_append [of 16 32 32] by simp
  also have "[32..<64] = [32..<48] @ [48..<64]"
    using upt_add_eq_append [of 32 48 16] by simp
  finally show ?thesis .
qed

lemma upt_8: "[0..<8] = [0,1,2,3,4,5,6,7]"
  by code_simp

lemma upt_4: "[0..<4] = [0,1,2,3]"
  by code_simp

lemma replicate_55: "replicate 55 x = [x,x,x,x,x,x,x,x,x,x,x,x,x,x,x,x,x,x,x,x,x,x,x,x,x,x,x,x,
  x,x,x,x,x,x,x,x,x,x,x,x,x,x,x,x,x,x,x,x,x,x,x,x,x,x,x]"
  by (simp add: numeral_eq_Suc)

lemma md5_pad_empty: "md5_pad [] = 0x80 # replicate 55 0 @ [0,0,0,0,0,0,0,0]"
  by (simp add: md5_pad_def le_bytes_def upt_8)

lemma le_words_pad_empty: "le_words (md5_pad []) = [0x80,0,0,0,0,0,0,0,0,0,0,0,0,0,0,0]"
  unfolding md5_pad_empty replicate_55 by simp

lemma md5_block_empty:
  "md5_block (0x67452301, 0xefcdab89, 0x98badcfe, 0x10325476) (md5_pad []) =
     (0xd98c1dd4, 0x04b2008f, 0x980980e9, 0x7e42f8ec)"
  unfolding md5_block_def le_words_pad_empty upt_rounds upt_16 upt_32 upt_48 upt_64
  by (simp add: md5_round_def rotl_def md5_table_def md5_shifts_def Let_def)

lemma md5_blocks_one:
  "length bs = 64 \<Longrightarrow> md5_blocks st bs = md5_block st bs"
  by (subst md5_blocks.simps, subst md5_blocks.simps) simp

lemma md5_sum_empty:
  "md5_sum [] = [0xd4, 0x1d, 0x8c, 0xd9, 0x8f, 0x00, 0xb2, 0x04,
                 0xe9, 0x80, 0x09, 0x98, 0xec, 0xf8, 0x42, 0x7e]"
proof -
  have "length (md5_pad []) = 64" by (simp add: md5_pad_empty)
  then have "md5_blocks (0x67452301, 0xefcdab89, 0x98badcfe, 0x10325476) (md5_pad []) =
     (0xd98c1dd4, 0x04b2008f, 0x980980e9, 0x7e42f8ec)"
    by (simp add: md5_blocks_one md5_block_empty)
  then show ?thesis
    by (simp add: md5_sum_def le_bytes_def upt_4)
qed

lemma EncodeToString_md5_empty: "EncodeToString (md5_sum []) = ''1B2M2Y8AsgTpgAmY7PhCfg==''"
  unfolding md5_sum_empty by (simp add: b64_def encodeStd_def)

lemma replicate_54: "replicate 54 x = [x,x,x,x,x,x,x,x,x,x,x,x,x,x,x,x,x,x,x,x,x,x,x,x,x,x,x,
  x,x,x,x,x,x,x,x,x,x,x,x,x,x,x,x,x,x,x,x,x,x,x,x,x,x,x]"
  by (simp add: numeral_eq_Suc)

lemma md5_pad_a: "md5_pad [0x61] = [0x61, 0x80] @ replicate 54 0 @ [8,0,0,0,0,0,0,0]"
  by (simp add: md5_pad_def le_bytes_def upt_8)

lemma le_words_pad_a: "le_words (md5_pad [0x61]) = [0x8061,0,0,0,0,0,0,0,0,0,0,0,0,0,8,0]"
  unfolding md5_pad_a replicate_54 by simp

lemma md5_block_a:
  "md5_block (0x67452301, 0xefcdab89, 0x98badcfe, 0x10325476) (md5_pad [0x61]) =
     (0xb975c10c, 0xa8b6f1c0, 0xe299c331, 0x61267769)"
  unfolding md5_block_def le_words_pad_a upt_rounds upt_16 upt_32 upt_48 upt_64
  by (simp add: md5_round_def rotl_def md5_table_def md5_shifts_def Let_def)

lemma md5_sum_a:
  "md5_sum [0x61] = [0x0c, 0xc1, 0x75, 0xb9, 0xc0, 0xf1, 0xb6, 0xa8,
                     0x31, 0xc3, 0x99, 0xe2, 0x69, 0x77, 0x26, 0x61]"
proof -
  have "length (md5_pad [0x61]) = 64" by (simp add: md5_pad_a)
  then have "md5_blocks (0x67452301, 0xefcdab89, 0x98badcfe, 0x10325476) (md5_pad [0x61]) =
     (0xb975c10c, 0xa8b6f1c0, 0xe299c331, 0x61267769)"
    by (simp add: md5_blocks_one md5_block_a)
  then show ?thesis
    by (simp add: md5_sum_def le_bytes_def upt_4)
qed

lemma EncodeToString_md5_a: "EncodeToString (md5_sum [0x61]) = ''DMF1ucDxtqgxw5niaXcmYQ==''"
  unfolding md5_sum_a by (simp add: b64_def encodeStd_def)

subsection \<open>ExtractDictionary\<close>

lemma HasPrefix_append: "HasPrefix (p @ k) p"
  by (simp add: HasPrefix_def)

lemma TrimPrefix_append: "TrimPrefix (p @ k) p = k"
  by (simp add: TrimPrefix_def HasPrefix_def)

lemma HasPrefix_split: "HasPrefix key p \<Longrightarrow> key = p @ TrimPrefix key p"
  by (simp add: TrimPrefix_def HasPrefix_def) (metis append_take_drop_id)

lemma ExtractDictionary_fold:
  assumes f: "f = (\<lambda>info key.
            case options key of
              None \<Rightarrow> info
            | Some value \<Rightarrow>
                if HasPrefix key prefix
                then (let newKey = TrimPrefix key prefix in info(newKey \<mapsto> value))
                else info)"
  shows "foldl f init ks k =
   (if prefix @ k \<in> set ks \<and> options (prefix @ k) \<noteq> None then options (prefix @ k) else init k)"
proof (induction ks arbitrary: init)
  case Nil
  show ?case by simp
next
  case (Cons key ks)
  have step: "f init key k =
      (if key = prefix @ k \<and> options key \<noteq> None then options key else init k)"
  proof (cases "options key")
    case None
    then show ?thesis by (simp add: f)
  next
    case (Some v)
    show ?thesis
    proof (cases "HasPrefix key prefix")
      case False
      then have "key \<noteq> prefix @ k" using HasPrefix_append by blast
      with Some False show ?thesis by (simp add: f)
    next
      case True
      then have "key = prefix @ k \<longleftrightarrow> TrimPrefix key prefix = k"
        using HasPrefix_split TrimPrefix_append by metis
      with Some True show ?thesis by (simp add: f Let_def)
    qed
  qed
  have "foldl f init (key # ks) k = foldl f (f init key) ks k" by simp
  also have "\<dots> = (if prefix @ k \<in> set ks \<and> options (prefix @ k) \<noteq> None
                      then options (prefix @ k) else f init key k)"
    by (rule Cons.IH)
  finally show ?case using step by auto
qed

lemma ExtractDictionary_lookup:
  assumes "set ks = dom options"
  shows "ExtractDictionary ks options prefix k = options (prefix @ k)"
  unfolding ExtractDictionary_def using assms
  by (subst ExtractDictionary_fold [OF refl]) auto

text \<open>
  C7. For a map and a prefix, the extracted dictionary holds, for every key of the map that
  begins with the prefix, the key without the prefix mapped to the key's own value; every entry
  of the result comes from such a key; and the keys that do not begin with the prefix have no
  influence: the result is that of the map restricted to the keys with the prefix.
\<close>

theorem ExtractDictionary_prefix_entries:
  assumes "set ks = dom options"
  shows "(\<forall>key value. options key = Some value \<and> HasPrefix key prefix \<longrightarrow>
            ExtractDictionary ks options prefix (TrimPrefix key prefix) = Some value)
       \<and> (\<forall>newKey value. ExtractDictionary ks options prefix newKey = Some value \<longrightarrow>
            HasPrefix (prefix @ newKey) prefix \<and> options (prefix @ newKey) = Some value
            \<and> TrimPrefix (prefix @ newKey) prefix = newKey)
       \<and> ExtractDictionary ks options prefix =
           ExtractDictionary (filter (\<lambda>key. HasPrefix key prefix) ks)
             (options |` {key. HasPrefix key prefix}) prefix"
proof (intro conjI allI impI)
  fix key v
  assume a: "options key = Some v \<and> HasPrefix key prefix"
  then have "prefix @ TrimPrefix key prefix = key" using HasPrefix_split by metis
  with a show "ExtractDictionary ks options prefix (TrimPrefix key prefix) = Some v"
    by (simp add: ExtractDictionary_lookup [OF assms])
next
  fix newKey v
  assume "ExtractDictionary ks options prefix newKey = Some v"
  then show "options (prefix @ newKey) = Some v"
    by (simp add: ExtractDictionary_lookup [OF assms])
next
  fix newKey :: string and v :: string
  show "HasPrefix (prefix @ newKey) prefix" by (rule HasPrefix_append)
  show "TrimPrefix (prefix @ newKey) prefix = newKey" by (rule TrimPrefix_append)
next
  let ?ks = "filter (\<lambda>key. HasPrefix key prefix) ks"
  let ?m = "options |` {key. HasPrefix key prefix}"
  have d: "set ?ks = dom ?m" using assms by auto
  show "ExtractDictionary ks options prefix = ExtractDictionary ?ks ?m prefix"
  proof
    fix k
    show "ExtractDictionary ks options prefix k = ExtractDictionary ?ks ?m prefix k"
      by (simp add: ExtractDictionary_lookup [OF assms] ExtractDictionary_lookup [OF d]
          HasPrefix_append)
  qed
qed

theorem ExtractDictionary_prefix_entries_witness:
  "ExtractDictionary [''https.url'', ''https.header.X-Foo'']
     [''https.url'' \<mapsto> ''http://example.test/upload'', ''https.header.X-Foo'' \<mapsto> ''bar'']
     ''https.header.'' (TrimPrefix ''https.header.X-Foo'' ''https.header.'') = Some ''bar''
   \<and> TrimPrefix ''https.header.X-Foo'' ''https.header.'' = ''X-Foo''
   \<and> ExtractDictionary [''https.url'', ''https.header.X-Foo'']
     [''https.url'' \<mapsto> ''http://example.test/upload'', ''https.header.X-Foo'' \<mapsto> ''bar'']
     ''https.header.'' ''https.url'' = None"
  using ExtractDictionary_prefix_entries
    [of "[''https.url'', ''https.header.X-Foo'']"
        "[''https.url'' \<mapsto> ''http://example.test/upload'', ''https.header.X-Foo'' \<mapsto> ''bar'']"
        "''https.header.''"]
  by (simp add: HasPrefix_def TrimPrefix_def ExtractDictionary_def)

subsection \<open>Construction\<close>

lemmas char_eval = char_of_def bit_Suc_0_iff

lemma ToUpper_empty: "ToUpper f [] = []"
  by (simp add: ToUpper_def)

lemma toUpperByte_ascii: "isASCII (toUpperByte c) \<Longrightarrow> isASCII c"
  by (auto simp: toUpperByte_def isASCII_def Let_def split: if_splits)

lemma ToUpper_case_variant:
  assumes "map toUpperByte m = w" and "list_all isASCII w"
  shows "ToUpper f m = w"
proof -
  have "list_all isASCII (map toUpperByte m)" using assms by simp
  then have "list_all isASCII m"
    by (induction m) (auto dest: toUpperByte_ascii)
  then show ?thesis using assms by (simp add: ToUpper_def)
qed

lemma ascii_PUT_POST: "list_all isASCII ''PUT''" "list_all isASCII ''POST''"
  by (simp_all add: isASCII_def)

lemma NewHTTPUploader_no_url:
  "options URLProp = None \<or> options URLProp = Some [] \<Longrightarrow>
   NewHTTPUploader env ks options cert = Inl (ErrorString ''upload URL not specified'')"
  by (auto simp: NewHTTPUploader_def)

lemma NewHTTPUploader_bad_method:
  assumes "options URLProp = Some u" "u \<noteq> []" "options MethodProp = Some m"
    and "ToUpper (unicode_ToUpper env) m \<noteq> ''PUT''" "ToUpper (unicode_ToUpper env) m \<noteq> ''POST''"
  shows "NewHTTPUploader env ks options cert =
     Inl (ErrorString (''unsupported HTTP method: '' @ ToUpper (unicode_ToUpper env) m))"
  using assms by (simp add: NewHTTPUploader_def)

lemma NewHTTPUploader_default_method:
  assumes "options URLProp = Some u" "u \<noteq> []" "options MethodProp = None"
  shows "NewHTTPUploader env ks options cert =
     Inr \<lparr>url = u, headers = ExtractDictionary ks options HeadersPrefix, method' = ''PUT'',
          serverCert = cert, cipherSuites = SupportedCipherSuites env\<rparr>"
  using assms by (simp add: NewHTTPUploader_def)

lemma NewHTTPUploader_good_method:
  assumes "options URLProp = Some u" "u \<noteq> []" "options MethodProp = Some m"
    and "map toUpperByte m = ''PUT'' \<or> map toUpperByte m = ''POST''"
  shows "NewHTTPUploader env ks options cert =
     Inr \<lparr>url = u, headers = ExtractDictionary ks options HeadersPrefix,
          method' = map toUpperByte m,
          serverCert = cert, cipherSuites = SupportedCipherSuites env\<rparr>"
proof -
  have "ToUpper (unicode_ToUpper env) m = map toUpperByte m"
    using assms(4) ToUpper_case_variant ascii_PUT_POST by metis
  with assms show ?thesis by (auto simp: NewHTTPUploader_def)
qed

text \<open>
  C3 as stated fails: a map with no URL and the method \<open>GET\<close>, whose upper-case form is neither
  \<open>PUT\<close> nor \<open>POST\<close>, is refused for its URL, not for its method.
\<close>

theorem NewHTTPUploader_unsupported_method_counterexample:
  "[MethodProp \<mapsto> ''GET''] MethodProp = Some ''GET''
   \<and> ToUpper (unicode_ToUpper sample_platform) ''GET'' = ''GET''
   \<and> NewHTTPUploader sample_platform [MethodProp] [MethodProp \<mapsto> ''GET''] [] \<noteq>
       Inl (ErrorString ''unsupported HTTP method: GET'')
   \<and> NewHTTPUploader sample_platform [MethodProp] [MethodProp \<mapsto> ''GET''] [] =
       Inl (ErrorString ''upload URL not specified'')"
  by (simp add: NewHTTPUploader_def ToUpper_def isASCII_def toUpperByte_def URLProp_def
      MethodProp_def sample_platform_def char_eval)

text \<open>
  C3, amended. The URL is checked first: a map whose URL option is missing or empty is refused
  with "upload URL not specified". A map with a non-empty URL and a method option whose
  upper-case form is neither \<open>PUT\<close> nor \<open>POST\<close> is refused with "unsupported HTTP method: "
  followed by the upper-case form. A map with a non-empty URL and no method option, or a method
  option that is \<open>PUT\<close> or \<open>POST\<close> in any letter case, gives an uploader whose method is \<open>PUT\<close> or
  \<open>POST\<close> in upper case (\<open>PUT\<close> when the option is absent).
\<close>

theorem NewHTTPUploader_validation:
  "(options URLProp = None \<or> options URLProp = Some [] \<longrightarrow>
      NewHTTPUploader env ks options cert = Inl (ErrorString ''upload URL not specified''))
   \<and> (\<forall>u m. options URLProp = Some u \<and> u \<noteq> [] \<and> options MethodProp = Some m
         \<and> ToUpper (unicode_ToUpper env) m \<noteq> ''PUT''
         \<and> ToUpper (unicode_ToUpper env) m \<noteq> ''POST'' \<longrightarrow>
      NewHTTPUploader env ks options cert =
        Inl (ErrorString (''unsupported HTTP method: '' @ ToUpper (unicode_ToUpper env) m)))
   \<and> (\<forall>u. options URLProp = Some u \<and> u \<noteq> []
         \<and> (options MethodProp = None
              \<or> (\<exists>m. options MethodProp = Some m
                    \<and> (map toUpperByte m = ''PUT'' \<or> map toUpperByte m = ''POST''))) \<longrightarrow>
      (\<exists>up. NewHTTPUploader env ks options cert = Inr up
           \<and> url up = u
           \<and> method' up = (case options MethodProp of None \<Rightarrow> ''PUT'' | Some m \<Rightarrow> map toUpperByte m)
           \<and> (method' up = ''PUT'' \<or> method' up = ''POST'')))"
proof (intro conjI allI impI)
  assume "options URLProp = None \<or> options URLProp = Some []"
  then show "NewHTTPUploader env ks options cert = Inl (ErrorString ''upload URL not specified'')"
    by (rule NewHTTPUploader_no_url)
next
  fix u m
  assume "options URLProp = Some u \<and> u \<noteq> [] \<and> options MethodProp = Some m
         \<and> ToUpper (unicode_ToUpper env) m \<noteq> ''PUT''
         \<and> ToUpper (unicode_ToUpper env) m \<noteq> ''POST''"
  then show "NewHTTPUploader env ks options cert =
        Inl (ErrorString (''unsupported HTTP method: '' @ ToUpper (unicode_ToUpper env) m))"
    by (simp add: NewHTTPUploader_bad_method)
next
  fix u
  assume a: "options URLProp = Some u \<and> u \<noteq> []
         \<and> (options MethodProp = None
              \<or> (\<exists>m. options MethodProp = Some m
                    \<and> (map toUpperByte m = ''PUT'' \<or> map toUpperByte m = ''POST'')))"
  show "\<exists>up. NewHTTPUploader env ks options cert = Inr up
           \<and> url up = u
           \<and> method' up = (case options MethodProp of None \<Rightarrow> ''PUT'' | Some m \<Rightarrow> map toUpperByte m)
           \<and> (method' up = ''PUT'' \<or> method' up = ''POST'')"
  proof (cases "options MethodProp")
    case None
    with a show ?thesis by (simp add: NewHTTPUploader_default_method)
  next
    case (Some m)
    with a have "map toUpperByte m = ''PUT'' \<or> map toUpperByte m = ''POST''" by simp
    with a Some show ?thesis
      using NewHTTPUploader_good_method [of options u m env ks cert] by auto
  qed
qed

theorem NewHTTPUploader_validation_witness:
  "NewHTTPUploader sample_platform [] Map.empty [] = Inl (ErrorString ''upload URL not specified'')
   \<and> NewHTTPUploader sample_platform [URLProp, MethodProp]
        [URLProp \<mapsto> ''http://example.test/upload'', MethodProp \<mapsto> ''get''] [] =
       Inl (ErrorString ''unsupported HTTP method: GET'')
   \<and> (\<exists>up. NewHTTPUploader sample_platform [URLProp, MethodProp]
        [URLProp \<mapsto> ''http://example.test/upload'', MethodProp \<mapsto> ''pOsT''] [] = Inr up
        \<and> url up = ''http://example.test/upload'' \<and> method' up = ''POST'')
   \<and> (\<exists>up. NewHTTPUploader sample_platform [URLProp] sample_options [] = Inr up
        \<and> method' up = ''PUT'')"
proof -
  let ?get = "[URLProp \<mapsto> ''http://example.test/upload'', MethodProp \<mapsto> ''get'']"
  let ?post = "[URLProp \<mapsto> ''http://example.test/upload'', MethodProp \<mapsto> ''pOsT'']"
  have ne: "URLProp \<noteq> MethodProp" by (simp add: URLProp_def MethodProp_def)
  have up: "ToUpper (unicode_ToUpper sample_platform) ''get'' = ''GET''"
    by (simp add: ToUpper_def isASCII_def toUpperByte_def char_eval)
  have post: "map toUpperByte ''pOsT'' = ''POST''"
    by (simp add: toUpperByte_def char_eval)
  have a: "NewHTTPUploader sample_platform [] Map.empty [] =
      Inl (ErrorString ''upload URL not specified'')"
    using NewHTTPUploader_validation [of Map.empty sample_platform "[]" "[]"] by simp
  have "NewHTTPUploader sample_platform [URLProp, MethodProp] ?get [] =
      Inl (ErrorString (''unsupported HTTP method: '' @ ToUpper (unicode_ToUpper sample_platform) ''get''))"
    by (rule NewHTTPUploader_validation [THEN conjunct2, THEN conjunct1, rule_format,
          where u = "''http://example.test/upload''"])
      (use ne in \<open>simp add: up\<close>)
  then have b: "NewHTTPUploader sample_platform [URLProp, MethodProp] ?get [] =
      Inl (ErrorString ''unsupported HTTP method: GET'')"
    by (simp add: up)
  have "\<exists>up. NewHTTPUploader sample_platform [URLProp, MethodProp] ?post [] = Inr up
        \<and> url up = ''http://example.test/upload''
        \<and> method' up = (case ?post MethodProp of None \<Rightarrow> ''PUT'' | Some m \<Rightarrow> map toUpperByte m)
        \<and> (method' up = ''PUT'' \<or> method' up = ''POST'')"
    by (rule NewHTTPUploader_validation [THEN conjunct2, THEN conjunct2, rule_format])
      (use ne post in simp)
  then have c: "\<exists>up. NewHTTPUploader sample_platform [URLProp, MethodProp] ?post [] = Inr up
        \<and> url up = ''http://example.test/upload'' \<and> method' up = ''POST''"
    using post by auto
  have "\<exists>up. NewHTTPUploader sample_platform [URLProp] sample_options [] = Inr up
        \<and> url up = ''http://example.test/upload''
        \<and> method' up = (case sample_options MethodProp of None \<Rightarrow> ''PUT'' | Some m \<Rightarrow> map toUpperByte m)
        \<and> (method' up = ''PUT'' \<or> method' up = ''POST'')"
    by (rule NewHTTPUploader_validation [THEN conjunct2, THEN conjunct2, rule_format])
      (simp add: sample_options_def URLProp_def MethodProp_def)
  moreover have "sample_options MethodProp = None"
    by (simp add: sample_options_def MethodProp_def)
  ultimately have d: "\<exists>up. NewHTTPUploader sample_platform [URLProp] sample_options [] = Inr up
        \<and> method' up = ''PUT''"
    by auto
  from a b c d show ?thesis by blast
qed

text \<open>
  C8 as stated fails: a map whose method option is the empty string and whose URL option is
  missing is refused for its URL.
\<close>

theorem NewHTTPUploader_empty_method_counterexample:
  "[MethodProp \<mapsto> []] MethodProp = Some []
   \<and> NewHTTPUploader sample_platform [MethodProp] [MethodProp \<mapsto> []] [] \<noteq>
       Inl (ErrorString ''unsupported HTTP method: '')
   \<and> NewHTTPUploader sample_platform [MethodProp] [MethodProp \<mapsto> []] [] =
       Inl (ErrorString ''upload URL not specified'')"
  by (simp add: NewHTTPUploader_def URLProp_def MethodProp_def)

text \<open>
  C8, amended. For a map with a non-empty URL option: when the method option is absent the
  uploader is built with the method \<open>PUT\<close>; when the method option is present with the empty
  string as its value, the construction does not fall back to \<open>PUT\<close> but fails with the message
  "unsupported HTTP method: " (the empty method after the colon).
\<close>

theorem NewHTTPUploader_empty_method:
  assumes "options URLProp = Some u" and "u \<noteq> []"
  shows "(options MethodProp = None \<longrightarrow>
            (\<exists>up. NewHTTPUploader env ks options cert = Inr up \<and> method' up = ''PUT''))
       \<and> (options MethodProp = Some [] \<longrightarrow>
            NewHTTPUploader env ks options cert = Inl (ErrorString ''unsupported HTTP method: ''))"
  using assms by (simp add: NewHTTPUploader_def ToUpper_empty)

theorem NewHTTPUploader_empty_method_witness:
  "(\<exists>up. NewHTTPUploader sample_platform [URLProp] sample_options [] = Inr up \<and> method' up = ''PUT'')
   \<and> NewHTTPUploader sample_platform [URLProp, MethodProp]
        (sample_options(MethodProp \<mapsto> [])) [] = Inl (ErrorString ''unsupported HTTP method: '')"
proof -
  have u: "sample_options URLProp = Some ''http://example.test/upload''"
    and m: "sample_options MethodProp = None"
    and u': "(sample_options(MethodProp \<mapsto> [])) URLProp = Some ''http://example.test/upload''"
    by (simp_all add: sample_options_def URLProp_def MethodProp_def)
  have n: "''http://example.test/upload'' \<noteq> []" by simp
  have "\<exists>up. NewHTTPUploader sample_platform [URLProp] sample_options [] = Inr up
      \<and> method' up = ''PUT''"
    using NewHTTPUploader_empty_method [of sample_options "''http://example.test/upload''"
        sample_platform "[URLProp]" "[]"] u m by simp
  moreover have "NewHTTPUploader sample_platform [URLProp, MethodProp]
        (sample_options(MethodProp \<mapsto> [])) [] = Inl (ErrorString ''unsupported HTTP method: '')"
    using NewHTTPUploader_empty_method [of "sample_options(MethodProp \<mapsto> [])"
        "''http://example.test/upload''" sample_platform "[URLProp, MethodProp]" "[]"] u'
    by simp
  ultimately show ?thesis by blast
qed

text \<open>
  C9. When a key of the map is the prefix itself, the extracted dictionary maps the empty
  string to that key's value; so an uploader built from a map with the key \<open>https.header.\<close> has
  a header whose name is the empty string.
\<close>

theorem ExtractDictionary_empty_name:
  assumes "set ks = dom options" and "options prefix = Some value"
  shows "ExtractDictionary ks options prefix [] = Some value
       \<and> (prefix = HeadersPrefix \<longrightarrow>
            (\<forall>up. NewHTTPUploader env ks options cert = Inr up \<longrightarrow> headers up [] = Some value))"
proof -
  have e: "ExtractDictionary ks options prefix [] = Some value"
    using assms by (simp add: ExtractDictionary_lookup)
  have "headers up = ExtractDictionary ks options HeadersPrefix"
    if "NewHTTPUploader env ks options cert = Inr up" for up
    using that by (auto simp: NewHTTPUploader_def Let_def split: if_splits)
  with e show ?thesis by auto
qed

theorem ExtractDictionary_empty_name_witness:
  "ExtractDictionary [URLProp, HeadersPrefix] (sample_options(HeadersPrefix \<mapsto> ''v'')) HeadersPrefix []
     = Some ''v''
   \<and> (\<exists>up. NewHTTPUploader sample_platform [URLProp, HeadersPrefix]
              (sample_options(HeadersPrefix \<mapsto> ''v'')) [] = Inr up
         \<and> headers up [] = Some ''v'')"
proof -
  let ?o = "sample_options(HeadersPrefix \<mapsto> ''v'')"
  have d: "set [URLProp, HeadersPrefix] = dom ?o"
    by (auto simp: sample_options_def URLProp_def HeadersPrefix_def)
  have v: "?o HeadersPrefix = Some ''v''" by simp
  have u: "?o URLProp = Some ''http://example.test/upload''" and m: "?o MethodProp = None"
    by (simp_all add: sample_options_def URLProp_def HeadersPrefix_def MethodProp_def)
  obtain up where up: "NewHTTPUploader sample_platform [URLProp, HeadersPrefix] ?o [] = Inr up"
    using NewHTTPUploader_default_method [of ?o "''http://example.test/upload''"] u m by simp
  from ExtractDictionary_empty_name [OF d v, of sample_platform "[]"] up
  show ?thesis by blast
qed

subsection \<open>The stages of UploadFile\<close>

lemma UploadFile_stat_fails:
  assumes "Stat file = Inl err"
  shows "UploadFile env hs u file useChecksum listener s =
    \<lparr>outcome = Returns (Some err), exchanges = [], listened = s\<rparr>"
  using assms by (simp add: UploadFile_def)

lemma UploadFile_request_fails:
  assumes "Stat file = Inr stats" "NewRequest env (method' u) (url u) file = Inl err"
  shows "UploadFile env hs u file useChecksum listener s =
    \<lparr>outcome = Returns (Some err), exchanges = [], listened = s\<rparr>"
  using assms by (simp add: UploadFile_def)

lemma UploadFile_parse_fails:
  assumes "Stat file = Inr stats" "NewRequest env (method' u) (url u) file = Inr req"
    "url_Parse env (url u) = Inl err"
  shows "UploadFile env hs u file useChecksum listener s =
    \<lparr>outcome = Panics, exchanges = [], listened = s\<rparr>"
  using assms by (simp add: UploadFile_def)

lemma UploadFile_transport_fails:
  assumes "Stat file = Inr stats" "NewRequest env (method' u) (url u) file = Inr req"
    "url_Parse env (url u) = Inr parsedURL" "chooseTransport env u parsedURL = Inl err"
  shows "UploadFile env hs u file useChecksum listener s =
    \<lparr>outcome = Returns (Some err), exchanges = [], listened = s\<rparr>"
  using assms by (simp add: UploadFile_def chooseTransport_def)

lemma UploadFile_checksum_fails:
  assumes "Stat file = Inr stats" "NewRequest env (method' u) (url u) file = Inr req"
    "url_Parse env (url u) = Inr parsedURL" "chooseTransport env u parsedURL = Inr t"
    "useChecksum" "ComputeMD5 file True = (Inl err, file')"
  shows "UploadFile env hs u file useChecksum listener s =
    \<lparr>outcome = Returns (Some err), exchanges = [], listened = s\<rparr>"
  using assms by (simp add: UploadFile_def chooseTransport_def)

lemma UploadFile_sends_checksum:
  assumes "Stat file = Inr stats" "NewRequest env (method' u) (url u) file = Inr req"
    "url_Parse env (url u) = Inr parsedURL" "chooseTransport env u parsedURL = Inr t"
    "useChecksum" "ComputeMD5 file True = (Inr md5, file')"
    and q: "q = (withHeaders hs u req)\<lparr>Header := Header_Set (Header (withHeaders hs u req)) ContentMD5 md5,
                ContentLength := Size stats, Body := file'\<rparr>"
  shows "UploadFile env hs u file useChecksum listener s =
    \<lparr>outcome = Returns (classify (client_Do env t q)),
     exchanges = [(t, q, client_Do env t q)], listened = s\<rparr>"
  using assms
  by (simp add: UploadFile_def chooseTransport_def withHeaders_def classify_def Let_def
      split: sum.split)

lemma UploadFile_sends_plain:
  assumes "Stat file = Inr stats" "NewRequest env (method' u) (url u) file = Inr req"
    "url_Parse env (url u) = Inr parsedURL" "chooseTransport env u parsedURL = Inr t"
    "\<not> useChecksum"
    and q: "q = (withHeaders hs u req)\<lparr>ContentLength := Size stats, Body := file\<rparr>"
  shows "UploadFile env hs u file useChecksum listener s =
    \<lparr>outcome = Returns (classify (client_Do env t q)),
     exchanges = [(t, q, client_Do env t q)], listened = s\<rparr>"
  using assms
  by (simp add: UploadFile_def chooseTransport_def withHeaders_def classify_def Let_def
      split: sum.split)

lemma UploadFile_cases [case_names stat_fails request_fails parse_fails transport_fails
    checksum_fails sends_checksum sends_plain]:
  obtains
    err where "Stat fl = Inl err"
  | stats err where "Stat fl = Inr stats" "NewRequest env (method' u) (url u) fl = Inl err"
  | stats req err where "Stat fl = Inr stats" "NewRequest env (method' u) (url u) fl = Inr req"
      "url_Parse env (url u) = Inl err"
  | stats req parsedURL err where "Stat fl = Inr stats"
      "NewRequest env (method' u) (url u) fl = Inr req"
      "url_Parse env (url u) = Inr parsedURL" "chooseTransport env u parsedURL = Inl err"
  | stats req parsedURL t err file' where "Stat fl = Inr stats"
      "NewRequest env (method' u) (url u) fl = Inr req"
      "url_Parse env (url u) = Inr parsedURL" "chooseTransport env u parsedURL = Inr t"
      "useChecksum" "ComputeMD5 fl True = (Inl err, file')"
  | stats req parsedURL t md5 file' where "Stat fl = Inr stats"
      "NewRequest env (method' u) (url u) fl = Inr req"
      "url_Parse env (url u) = Inr parsedURL" "chooseTransport env u parsedURL = Inr t"
      "useChecksum" "ComputeMD5 fl True = (Inr md5, file')"
  | stats req parsedURL t where "Stat fl = Inr stats"
      "NewRequest env (method' u) (url u) fl = Inr req"
      "url_Parse env (url u) = Inr parsedURL" "chooseTransport env u parsedURL = Inr t"
      "\<not> useChecksum"
proof (cases "Stat fl")
  case (Inl err)
  then show ?thesis using that(1) by blast
next
  case stat: (Inr stats)
  show ?thesis
  proof (cases "NewRequest env (method' u) (url u) fl")
    case (Inl err)
    with stat show ?thesis using that(2) by blast
  next
    case req: (Inr req)
    show ?thesis
    proof (cases "url_Parse env (url u)")
      case (Inl err)
      with stat req show ?thesis using that(3) by blast
    next
      case parsed: (Inr parsedURL)
      show ?thesis
      proof (cases "chooseTransport env u parsedURL")
        case (Inl err)
        with stat req parsed show ?thesis using that(4) by blast
      next
        case tr: (Inr t)
        show ?thesis
        proof (cases useChecksum)
          case False
          with stat req parsed tr show ?thesis using that(7) by blast
        next
          case True
          obtain r file' where c: "ComputeMD5 fl True = (r, file')"
            by (cases "ComputeMD5 fl True") auto
          show ?thesis
          proof (cases r)
            case (Inl err)
            with stat req parsed tr True c show ?thesis using that(5) by blast
          next
            case (Inr md5)
            with stat req parsed tr True c show ?thesis using that(6) by blast
          qed
        qed
      qed
    qed
  qed
qed

lemma setHeaders_snoc:
  "setHeaders (hs @ [name]) hdrs req =
     (case hdrs name of
        None \<Rightarrow> setHeaders hs hdrs req
      | Some value \<Rightarrow> (setHeaders hs hdrs req)
          \<lparr>Header := Header_Set (Header (setHeaders hs hdrs req)) name value\<rparr>)"
  unfolding setHeaders_def by simp

lemma setHeaders_frame:
  "Method (setHeaders hs hdrs req) = Method req
   \<and> Target (setHeaders hs hdrs req) = Target req
   \<and> Body (setHeaders hs hdrs req) = Body req
   \<and> ContentLength (setHeaders hs hdrs req) = ContentLength req"
proof (induction hs rule: rev_induct)
  case Nil
  show ?case by (simp add: setHeaders_def)
next
  case (snoc name hs)
  then show ?case by (simp add: setHeaders_snoc split: option.split)
qed

lemma setHeaders_Header:
  "(Header (setHeaders hs hdrs req) k = Header req k
      \<and> (\<forall>name\<in>set hs. hdrs name = None \<or> CanonicalMIMEHeaderKey name \<noteq> k))
   \<or> (\<exists>name\<in>set hs. \<exists>v. hdrs name = Some v \<and> CanonicalMIMEHeaderKey name = k
         \<and> Header (setHeaders hs hdrs req) k = Some [v])"
proof (induction hs rule: rev_induct)
  case Nil
  show ?case by (simp add: setHeaders_def)
next
  case (snoc name hs)
  show ?case
  proof (cases "hdrs name")
    case None
    with snoc show ?thesis by (auto simp: setHeaders_snoc)
  next
    case (Some v)
    show ?thesis
    proof (cases "CanonicalMIMEHeaderKey name = k")
      case True
      with Some show ?thesis by (auto simp: setHeaders_snoc Header_Set_def)
    next
      case False
      with Some snoc show ?thesis by (auto simp: setHeaders_snoc Header_Set_def)
    qed
  qed
qed

subsection \<open>Running the sample upload\<close>

lemma sample_Stat: "Stat (sample_file bs) = Inr \<lparr>Size = int (length bs)\<rparr>"
  by (simp add: Stat_def sample_file_def)

lemma validMethod_PUT: "validMethod ''PUT''" "validMethod ''POST''"
  by (simp_all add: validMethod_def isTokenByte_def)

lemma sample_NewRequest:
  "NewRequest (sample_platform\<lparr>client_Do := d\<rparr>) ''PUT'' ''http://example.test/upload'' f =
     Inr \<lparr>Method = ''PUT'',
          Target = \<lparr>Scheme = ''http'', Host = ''example.test'', Path = ''/upload''\<rparr>,
          Header = Map.empty, Body = f, ContentLength = 0\<rparr>"
  by (simp add: NewRequest_def validMethod_PUT sample_platform_def sample_Parse_def)

lemma sample_upload:
  "UploadFile (sample_platform\<lparr>client_Do := d\<rparr>) [] sample_uploader (sample_file bs) False
           listener s =
         \<lparr>outcome = Returns (classify (d plain_transport (sample_request bs))),
          exchanges = [(plain_transport, sample_request bs, d plain_transport (sample_request bs))],
          listened = s\<rparr>"
proof -
  have ct: "CanonicalMIMEHeaderKey ''Content-Type'' = ''Content-Type''"
    by (simp add: CanonicalMIMEHeaderKey_def isTokenByte_def toUpperByte_def toLowerByte_def
        char_eval Let_def)
  have p: "url_Parse (sample_platform\<lparr>client_Do := d\<rparr>) (url sample_uploader) =
      Inr \<lparr>Scheme = ''http'', Host = ''example.test'', Path = ''/upload''\<rparr>"
    by (simp add: sample_platform_def sample_Parse_def sample_uploader_def)
  have tr: "chooseTransport (sample_platform\<lparr>client_Do := d\<rparr>) sample_uploader
      \<lparr>Scheme = ''http'', Host = ''example.test'', Path = ''/upload''\<rparr> = Inr plain_transport"
    by (simp add: chooseTransport_def plain_transport_def)
  have r: "NewRequest (sample_platform\<lparr>client_Do := d\<rparr>) (method' sample_uploader)
      (url sample_uploader) (sample_file bs) =
     Inr \<lparr>Method = ''PUT'',
          Target = \<lparr>Scheme = ''http'', Host = ''example.test'', Path = ''/upload''\<rparr>,
          Header = Map.empty, Body = sample_file bs, ContentLength = 0\<rparr>"
    using sample_NewRequest by (simp add: sample_uploader_def)
  have q: "sample_request bs = (withHeaders [] sample_uploader
      \<lparr>Method = ''PUT'',
          Target = \<lparr>Scheme = ''http'', Host = ''example.test'', Path = ''/upload''\<rparr>,
          Header = Map.empty, Body = sample_file bs, ContentLength = 0\<rparr>)
      \<lparr>ContentLength := Size \<lparr>Size = int (length bs)\<rparr>, Body := sample_file bs\<rparr>"
    by (simp add: sample_request_def withHeaders_def setHeaders_def Header_Set_def ct)
  have "UploadFile (sample_platform\<lparr>client_Do := d\<rparr>) [] sample_uploader (sample_file bs) False
           listener s =
         \<lparr>outcome = Returns (classify (client_Do (sample_platform\<lparr>client_Do := d\<rparr>)
              plain_transport (sample_request bs))),
          exchanges = [(plain_transport, sample_request bs,
              client_Do (sample_platform\<lparr>client_Do := d\<rparr>) plain_transport (sample_request bs))],
          listened = s\<rparr>"
    by (rule UploadFile_sends_plain [OF sample_Stat r p tr _ q]) simp
  then show ?thesis by simp
qed

lemma utoa_503: "Itoa 503 = ''503''"
  by (simp add: Itoa_def utoa.simps char_eval)

subsection \<open>The response\<close>

text \<open>
  C2. When the network answers a request of the call with a response, the call returns the
  error "upload failed - code: <code>, status: <status>", with the response's status code in
  decimal and its status text, if the status code is below 200 or above 299, and returns nil
  if the code is in 200..299; so it returns nil exactly for the codes of that range.
\<close>

theorem UploadFile_status_classification:
  assumes "(t, q, Inr resp) \<in> set (exchanges (UploadFile env hs u file useChecksum listener s))"
  shows "outcome (UploadFile env hs u file useChecksum listener s) =
           Returns (if StatusCode resp < 200 \<or> StatusCode resp > 299
                    then Some (ErrorString (''upload failed - code: '' @ Itoa (StatusCode resp)
                                  @ '', status: '' @ Status resp))
                    else None)
       \<and> (outcome (UploadFile env hs u file useChecksum listener s) = Returns None
            \<longleftrightarrow> 200 \<le> StatusCode resp \<and> StatusCode resp \<le> 299)"
proof -
  let ?r = "UploadFile env hs u file useChecksum listener s"
  have "outcome ?r = Returns (classify (Inr resp))"
  proof (cases rule: UploadFile_cases
      [where fl = "file" and env = "env" and u = "u" and useChecksum = "useChecksum"])
    case (stat_fails err)
    with assms show ?thesis by (simp add: UploadFile_stat_fails)
  next
    case (request_fails stats err)
    with assms show ?thesis by (simp add: UploadFile_request_fails)
  next
    case (parse_fails stats req err)
    with assms show ?thesis by (simp add: UploadFile_parse_fails)
  next
    case (transport_fails stats req parsedURL err)
    with assms show ?thesis by (simp add: UploadFile_transport_fails)
  next
    case (checksum_fails stats req parsedURL t' err file')
    with assms show ?thesis by (simp add: UploadFile_checksum_fails)
  next
    case (sends_checksum stats req parsedURL t' md5 file')
    from assms show ?thesis
      unfolding UploadFile_sends_checksum [OF sends_checksum refl] by simp
  next
    case (sends_plain stats req parsedURL t')
    from assms show ?thesis
      unfolding UploadFile_sends_plain [OF sends_plain refl] by simp
  qed
  then show ?thesis by (auto simp: classify_def)
qed

theorem UploadFile_status_classification_witness:
  "outcome (UploadFile (sample_platform\<lparr>client_Do := \<lambda>t q. Inr unavailable\<rparr>) [] sample_uploader
      (sample_file [1, 2, 3]) False record_progress []) =
     Returns (Some (ErrorString ''upload failed - code: 503, status: 503 Service Unavailable''))
   \<and> outcome (UploadFile (sample_platform\<lparr>client_Do := \<lambda>t q. Inr created\<rparr>) [] sample_uploader
      (sample_file [1, 2, 3]) False record_progress []) = Returns None"
proof -
  have "(plain_transport, sample_request [1, 2, 3], Inr unavailable) \<in> set (exchanges
      (UploadFile (sample_platform\<lparr>client_Do := \<lambda>t q. Inr unavailable\<rparr>) [] sample_uploader
        (sample_file [1, 2, 3]) False record_progress []))"
    by (simp add: sample_upload)
  from UploadFile_status_classification [OF this]
  have a: "outcome (UploadFile (sample_platform\<lparr>client_Do := \<lambda>t q. Inr unavailable\<rparr>) [] sample_uploader
      (sample_file [1, 2, 3]) False record_progress []) =
     Returns (Some (ErrorString ''upload failed - code: 503, status: 503 Service Unavailable''))"
    by (simp add: unavailable_def utoa_503)
  have "(plain_transport, sample_request [1, 2, 3], Inr created) \<in> set (exchanges
      (UploadFile (sample_platform\<lparr>client_Do := \<lambda>t q. Inr created\<rparr>) [] sample_uploader
        (sample_file [1, 2, 3]) False record_progress []))"
    by (simp add: sample_upload)
  from UploadFile_status_classification [OF this]
  have b: "outcome (UploadFile (sample_platform\<lparr>client_Do := \<lambda>t q. Inr created\<rparr>) [] sample_uploader
      (sample_file [1, 2, 3]) False record_progress []) = Returns None"
    by (simp add: created_def)
  from a b show ?thesis by simp
qed

subsection \<open>The listener and the parsed URL\<close>

lemma UploadFile_listened:
  "listened (UploadFile env hs u file useChecksum listener s) = s"
proof (cases rule: UploadFile_cases
    [where fl = "file" and env = "env" and u = "u" and useChecksum = "useChecksum"])
  case (stat_fails err)
  then show ?thesis by (simp add: UploadFile_stat_fails)
next
  case (request_fails stats err)
  then show ?thesis by (simp add: UploadFile_request_fails)
next
  case (parse_fails stats req err)
  then show ?thesis by (simp add: UploadFile_parse_fails)
next
  case (transport_fails stats req parsedURL err)
  then show ?thesis by (simp add: UploadFile_transport_fails)
next
  case (checksum_fails stats req parsedURL t' err file')
  then show ?thesis by (simp add: UploadFile_checksum_fails)
next
  case (sends_checksum stats req parsedURL t' md5 file')
  show ?thesis unfolding UploadFile_sends_checksum [OF sends_checksum refl] by simp
next
  case (sends_plain stats req parsedURL t')
  show ?thesis unfolding UploadFile_sends_plain [OF sends_plain refl] by simp
qed

lemma sample_platform_Do: "sample_platform\<lparr>client_Do := \<lambda>t q. Inr created\<rparr> = sample_platform"
  by (simp add: sample_platform_def created_def)

lemma sample_uploader_constructed:
  "NewHTTPUploader sample_platform [URLProp] sample_options [] = Inr sample_uploader"
proof -
  have u: "sample_options URLProp = Some ''http://example.test/upload''"
    and m: "sample_options MethodProp = None"
    by (simp_all add: sample_options_def URLProp_def MethodProp_def)
  have h: "ExtractDictionary [URLProp] sample_options HeadersPrefix = Map.empty"
    by (simp add: ExtractDictionary_def sample_options_def HasPrefix_def URLProp_def
        HeadersPrefix_def)
  have c: "SupportedCipherSuites sample_platform = [0x1301, 0xc02f]"
    by (simp add: SupportedCipherSuites_def sample_platform_def)
  show ?thesis
    using NewHTTPUploader_default_method [of sample_options "''http://example.test/upload''"
        sample_platform "[URLProp]" "[]"] u m
    by (simp add: h c sample_uploader_def)
qed

text \<open>
  C1. The uploader built from the sample options uploads a file of one byte and succeeds: it
  returns nil after sending one request of content length 1. The listener records every value
  it is called with, and after the call it has recorded nothing: \<open>UploadFile\<close> takes the
  listener and never calls it (see \<open>UploadFile_listened\<close>), so no sequence of reported values
  ends at the file size 1.
\<close>

theorem UploadFile_reports_no_progress:
  "NewHTTPUploader sample_platform [URLProp] sample_options [] = Inr sample_uploader
   \<and> outcome (UploadFile sample_platform [] sample_uploader (sample_file [0x61]) False
      record_progress []) = Returns None
   \<and> requests (UploadFile sample_platform [] sample_uploader (sample_file [0x61]) False
      record_progress []) = [sample_request [0x61]]
   \<and> ContentLength (sample_request [0x61]) = 1
   \<and> listened (UploadFile sample_platform [] sample_uploader (sample_file [0x61]) False
      record_progress []) = []"
proof -
  have "UploadFile sample_platform [] sample_uploader (sample_file [0x61]) False
      record_progress [] =
    \<lparr>outcome = Returns (classify (Inr created)),
     exchanges = [(plain_transport, sample_request [0x61], Inr created)],
     listened = []\<rparr>"
    using sample_upload [of "\<lambda>t q. Inr created" "[0x61]" record_progress "[]"]
    by (simp add: sample_platform_Do)
  then show ?thesis
    by (simp add: classify_def created_def requests_def sample_request_def
        sample_uploader_constructed)
qed

text \<open>
  C10. Whenever \<open>http.NewRequest\<close> succeeds on the uploader's URL, \<open>url.Parse\<close> succeeds on the
  same string, so the parsed URL whose scheme \<open>UploadFile\<close> reads is never nil: no call of
  \<open>UploadFile\<close> panics.
\<close>

theorem UploadFile_parsed_url_not_nil:
  "(\<forall>req. NewRequest env (method' u) (url u) file = Inr req \<longrightarrow>
       (\<exists>parsedURL. url_Parse env (url u) = Inr parsedURL))
   \<and> outcome (UploadFile env hs u file useChecksum listener s) \<noteq> Panics"
proof
  show p: "\<forall>req. NewRequest env (method' u) (url u) file = Inr req \<longrightarrow>
       (\<exists>parsedURL. url_Parse env (url u) = Inr parsedURL)"
    by (auto simp: NewRequest_def Let_def split: if_splits sum.splits)
  show "outcome (UploadFile env hs u file useChecksum listener s) \<noteq> Panics"
  proof (cases rule: UploadFile_cases
      [where fl = "file" and env = "env" and u = "u" and useChecksum = "useChecksum"])
    case (stat_fails err)
    then show ?thesis by (simp add: UploadFile_stat_fails)
  next
    case (request_fails stats err)
    then show ?thesis by (simp add: UploadFile_request_fails)
  next
    case (parse_fails stats req err)
    with p show ?thesis by auto
  next
    case (transport_fails stats req parsedURL err)
    then show ?thesis by (simp add: UploadFile_transport_fails)
  next
    case (checksum_fails stats req parsedURL t' err file')
    then show ?thesis by (simp add: UploadFile_checksum_fails)
  next
    case (sends_checksum stats req parsedURL t' md5 file')
    show ?thesis unfolding UploadFile_sends_checksum [OF sends_checksum refl] by simp
  next
    case (sends_plain stats req parsedURL t')
    show ?thesis unfolding UploadFile_sends_plain [OF sends_plain refl] by simp
  qed
qed

theorem UploadFile_parsed_url_not_nil_witness:
  "(\<exists>req. NewRequest sample_platform (method' sample_uploader) (url sample_uploader)
        (sample_file [1, 2, 3]) = Inr req)
   \<and> (\<exists>parsedURL. url_Parse sample_platform (url sample_uploader) = Inr parsedURL)
   \<and> outcome (UploadFile sample_platform [] sample_uploader (sample_file [1, 2, 3]) False
        record_progress []) \<noteq> Panics
   \<and> url_Parse sample_platform ''::'' = Inl (URLError ''parse'' ''::'')
   \<and> outcome (UploadFile sample_platform [] (sample_uploader\<lparr>url := ''::''\<rparr>)
        (sample_file [1, 2, 3]) False record_progress []) =
       Returns (Some (URLError ''parse'' ''::''))"
proof -
  have r: "\<exists>req. NewRequest sample_platform (method' sample_uploader) (url sample_uploader)
        (sample_file [1, 2, 3]) = Inr req"
    using sample_NewRequest [of "\<lambda>t q. Inr created" "sample_file [1, 2, 3]"]
    by (simp add: sample_platform_Do sample_uploader_def)
  note w = UploadFile_parsed_url_not_nil [of sample_platform sample_uploader "sample_file [1, 2, 3]"
      "[]" False record_progress "[]"]
  from w r have a: "\<exists>parsedURL. url_Parse sample_platform (url sample_uploader) = Inr parsedURL"
    by blast
  from w have b: "outcome (UploadFile sample_platform [] sample_uploader (sample_file [1, 2, 3])
        False record_progress []) \<noteq> Panics"
    by blast
  have c: "url_Parse sample_platform ''::'' = Inl (URLError ''parse'' ''::'')"
    by (simp add: sample_platform_def sample_Parse_def)
  have nr: "NewRequest sample_platform (method' (sample_uploader\<lparr>url := ''::''\<rparr>))
      (url (sample_uploader\<lparr>url := ''::''\<rparr>)) (sample_file [1, 2, 3]) =
      Inl (URLError ''parse'' ''::'')"
    using c by (simp add: NewRequest_def sample_uploader_def validMethod_PUT)
  have d: "outcome (UploadFile sample_platform [] (sample_uploader\<lparr>url := ''::''\<rparr>)
        (sample_file [1, 2, 3]) False record_progress []) =
       Returns (Some (URLError ''parse'' ''::''))"
    by (simp add: UploadFile_request_fails [OF sample_Stat nr])
  from r a b c d show ?thesis by blast
qed

subsection \<open>The digest\<close>

lemma ComputeMD5_ok:
  assumes "read_err f = None"
  shows "ComputeMD5 f enc =
    (Inr (if enc then EncodeToString (md5_sum (drop (offset f) (content f)))
          else string_of_bytes (md5_sum (drop (offset f) (content f)))),
     f\<lparr>offset := 0\<rparr>)"
  using assms by (simp add: ComputeMD5_def ReadToEnd_def Seek_def Let_def)

lemma ComputeMD5_fails:
  assumes "read_err f = Some err"
  shows "ComputeMD5 f enc = (Inl err, f)"
  using assms by (simp add: ComputeMD5_def ReadToEnd_def)

text \<open>
  C6. After a successful \<open>ComputeMD5\<close> the handle is at position 0 with its content unchanged,
  so reading it to the end gives the whole content. The digest is a function of the bytes
  read: a second run on the handle as the first run left it gives the same digest as the first
  when the first started at position 0, and two handles at the same position with the same
  content give the same digest.
\<close>

theorem ComputeMD5_rewinds:
  assumes "ComputeMD5 f enc = (Inr digest, f')"
  shows "offset f' = 0
       \<and> content f' = content f
       \<and> fst (ReadToEnd f') = Inr (content f)
       \<and> (offset f = 0 \<longrightarrow> fst (ComputeMD5 f' enc) = Inr digest)
       \<and> (\<forall>g. content g = content f \<and> offset g = offset f \<and> read_err g = None \<longrightarrow>
             fst (ComputeMD5 g enc) = Inr digest)"
proof -
  have ok: "read_err f = None"
  proof (cases "read_err f")
    case None
    then show ?thesis .
  next
    case (Some err)
    with assms show ?thesis by (simp add: ComputeMD5_fails)
  qed
  from assms have f': "f' = f\<lparr>offset := 0\<rparr>"
    and d: "digest = (if enc then EncodeToString (md5_sum (drop (offset f) (content f)))
          else string_of_bytes (md5_sum (drop (offset f) (content f))))"
    by (simp_all add: ComputeMD5_ok [OF ok])
  have ok': "read_err f' = None" using ok f' by simp
  show ?thesis
    using ComputeMD5_ok [OF ok', of enc] ok
    by (auto simp: f' d ReadToEnd_def ComputeMD5_ok)
qed

theorem ComputeMD5_rewinds_witness:
  "ComputeMD5 (sample_file []) True = (Inr ''1B2M2Y8AsgTpgAmY7PhCfg=='', sample_file [])
   \<and> fst (ReadToEnd (sample_file [])) = Inr []
   \<and> fst (ComputeMD5 (sample_file []) True) = Inr ''1B2M2Y8AsgTpgAmY7PhCfg==''
   \<and> ComputeMD5 ((sample_file [1, 2, 3])\<lparr>offset := 2\<rparr>) False =
        (Inr (string_of_bytes (md5_sum [3])), sample_file [1, 2, 3])
   \<and> fst (ReadToEnd (sample_file [1, 2, 3])) = Inr [1, 2, 3]"
proof -
  have a: "ComputeMD5 (sample_file []) True = (Inr ''1B2M2Y8AsgTpgAmY7PhCfg=='', sample_file [])"
    by (simp add: ComputeMD5_ok sample_file_def EncodeToString_md5_empty)
  have b: "ComputeMD5 ((sample_file [1, 2, 3])\<lparr>offset := 2\<rparr>) False =
        (Inr (string_of_bytes (md5_sum [3])), sample_file [1, 2, 3])"
    by (simp add: ComputeMD5_ok sample_file_def)
  from ComputeMD5_rewinds [OF a] ComputeMD5_rewinds [OF b] a b
  show ?thesis by (simp add: sample_file_def)
qed

subsection \<open>The transport\<close>

lemma getHTTPTransport_config:
  assumes "getHTTPTransport env u = Inr t"
  shows "\<exists>config. TLSClientConfig t = Some config
      \<and> MinVersion config = VersionTLS12 \<and> MaxVersion config = VersionTLS13
      \<and> \<not> InsecureSkipVerify config
      \<and> CipherSuites config = cipherSuites u
      \<and> (serverCert u = [] \<longrightarrow> RootCAs config = None)"
  using assms
  by (auto simp: getHTTPTransport_def Let_def split: if_splits sum.splits)

lemma getHTTPTransport_unreadable:
  assumes "serverCert u \<noteq> []" "ioutil_ReadFile env (serverCert u) = Inl err"
  shows "getHTTPTransport env u = Inl err"
  using assms by (simp add: getHTTPTransport_def)

lemma NewRequest_ok:
  assumes "validMethod m" "url_Parse env target = Inr parsedURL"
  shows "NewRequest env m target f =
    Inr \<lparr>Method = m, Target = parsedURL, Header = Map.empty, Body = f, ContentLength = 0\<rparr>"
  using assms by (auto simp: NewRequest_def validMethod_def)

lemma UploadFile_exchange_transport:
  assumes "(t, q, x) \<in> set (exchanges (UploadFile env hs u file useChecksum listener s))"
  shows "\<exists>parsedURL. url_Parse env (url u) = Inr parsedURL
           \<and> chooseTransport env u parsedURL = Inr t"
proof (cases rule: UploadFile_cases
    [where fl = "file" and env = "env" and u = "u" and useChecksum = "useChecksum"])
  case (stat_fails err)
  with assms show ?thesis by (simp add: UploadFile_stat_fails)
next
  case (request_fails stats err)
  with assms show ?thesis by (simp add: UploadFile_request_fails)
next
  case (parse_fails stats req err)
  with assms show ?thesis by (simp add: UploadFile_parse_fails)
next
  case (transport_fails stats req parsedURL err)
  with assms show ?thesis by (simp add: UploadFile_transport_fails)
next
  case (checksum_fails stats req parsedURL t' err file')
  with assms show ?thesis by (simp add: UploadFile_checksum_fails)
next
  case (sends_checksum stats req parsedURL t' md5 file')
  from assms have "t = t'"
    unfolding UploadFile_sends_checksum [OF sends_checksum refl] by simp
  with sends_checksum show ?thesis by simp
next
  case (sends_plain stats req parsedURL t')
  from assms have "t = t'"
    unfolding UploadFile_sends_plain [OF sends_plain refl] by simp
  with sends_plain show ?thesis by simp
qed

text \<open>
  C4. For an upload to an \<open>https\<close> URL: the transport that \<open>getHTTPTransport\<close> builds, which is
  the transport of every request the call sends, has a TLS configuration with minimum version
  TLS 1.2 (\<open>0x0303\<close>), maximum version TLS 1.3 (\<open>0x0304\<close>), certificate verification on, the
  uploader's cipher suites (for an uploader that \<open>NewHTTPUploader\<close> built, the ids of
  \<open>tls.CipherSuites()\<close> computed at construction), and no trust pool when no certificate path is
  configured. When a
  certificate path is configured and the file cannot be read, the call of an uploader with
  method \<open>PUT\<close> or \<open>POST\<close> sends no request and returns the error of the operating system: that
  of reading the certificate file, or that of reading the metadata of the file to upload when
  this fails first.
\<close>

theorem UploadFile_https_transport:
  assumes "url_Parse env (url u) = Inr parsedURL" and "Scheme parsedURL = ''https''"
  shows "(\<forall>t. getHTTPTransport env u = Inr t \<longrightarrow>
            (\<exists>config. TLSClientConfig t = Some config
               \<and> MinVersion config = VersionTLS12 \<and> MaxVersion config = VersionTLS13
               \<and> \<not> InsecureSkipVerify config
               \<and> CipherSuites config = cipherSuites u
               \<and> (serverCert u = [] \<longrightarrow> RootCAs config = None)))
       \<and> (\<forall>t q x. (t, q, x) \<in> set (exchanges (UploadFile env hs u file useChecksum listener s))
             \<longrightarrow> getHTTPTransport env u = Inr t)
       \<and> (\<forall>err. serverCert u \<noteq> [] \<and> ioutil_ReadFile env (serverCert u) = Inl err
              \<and> (method' u = ''PUT'' \<or> method' u = ''POST'') \<longrightarrow>
            exchanges (UploadFile env hs u file useChecksum listener s) = []
            \<and> outcome (UploadFile env hs u file useChecksum listener s) =
                Returns (Some (case Stat file of Inl e \<Rightarrow> e | Inr stats \<Rightarrow> err)))
       \<and> (\<forall>ks options cert. NewHTTPUploader env ks options cert = Inr u \<longrightarrow>
            cipherSuites u = map ID (tls_CipherSuites env)
            \<and> (method' u = ''PUT'' \<or> method' u = ''POST''))"
proof (intro conjI allI impI)
  fix ks options cert
  assume n: "NewHTTPUploader env ks options cert = Inr u"
  then show "cipherSuites u = map ID (tls_CipherSuites env)"
    by (auto simp: NewHTTPUploader_def SupportedCipherSuites_def Let_def split: if_splits)
  from n show "method' u = ''PUT'' \<or> method' u = ''POST''"
    by (auto simp: NewHTTPUploader_def Let_def split: if_splits)
next
  fix t
  assume "getHTTPTransport env u = Inr t"
  then show "\<exists>config. TLSClientConfig t = Some config
               \<and> MinVersion config = VersionTLS12 \<and> MaxVersion config = VersionTLS13
               \<and> \<not> InsecureSkipVerify config
               \<and> CipherSuites config = cipherSuites u
               \<and> (serverCert u = [] \<longrightarrow> RootCAs config = None)"
    by (rule getHTTPTransport_config)
next
  fix t q x
  assume "(t, q, x) \<in> set (exchanges (UploadFile env hs u file useChecksum listener s))"
  from UploadFile_exchange_transport [OF this] assms
  show "getHTTPTransport env u = Inr t" by (auto simp: chooseTransport_def)
next
  fix err
  assume a: "serverCert u \<noteq> [] \<and> ioutil_ReadFile env (serverCert u) = Inl err
              \<and> (method' u = ''PUT'' \<or> method' u = ''POST'')"
  then have tr: "chooseTransport env u parsedURL = Inl err"
    using assms by (simp add: chooseTransport_def getHTTPTransport_unreadable)
  from a have "validMethod (method' u)" using validMethod_PUT by auto
  from NewRequest_ok [OF this assms(1)]
  have req: "NewRequest env (method' u) (url u) file =
    Inr \<lparr>Method = method' u, Target = parsedURL, Header = Map.empty, Body = file,
         ContentLength = 0\<rparr>" .
  have "exchanges (UploadFile env hs u file useChecksum listener s) = []
            \<and> outcome (UploadFile env hs u file useChecksum listener s) =
                Returns (Some (case Stat file of Inl e \<Rightarrow> e | Inr stats \<Rightarrow> err))"
  proof (cases "Stat file")
    case (Inl e)
    then show ?thesis by (simp add: UploadFile_stat_fails)
  next
    case (Inr stats)
    then show ?thesis by (simp add: UploadFile_transport_fails [OF Inr req assms(1) tr])
  qed
  then show "exchanges (UploadFile env hs u file useChecksum listener s) = []"
    and "outcome (UploadFile env hs u file useChecksum listener s) =
                Returns (Some (case Stat file of Inl e \<Rightarrow> e | Inr stats \<Rightarrow> err))"
    by simp_all
qed

lemma https_Parse:
  "url_Parse sample_platform (url (https_uploader cert)) =
     Inr \<lparr>Scheme = ''https'', Host = ''example.test'', Path = ''/upload''\<rparr>"
  by (simp add: https_uploader_def sample_platform_def sample_Parse_def)

lemma https_upload:
  "UploadFile sample_platform [] (https_uploader []) (sample_file bs) False listener s =
     \<lparr>outcome = Returns None,
      exchanges = [(https_transport, https_request bs, Inr created)],
      listened = s\<rparr>"
proof -
  have ct: "CanonicalMIMEHeaderKey ''Content-Type'' = ''Content-Type''"
    by (simp add: CanonicalMIMEHeaderKey_def isTokenByte_def toUpperByte_def toLowerByte_def
        char_eval Let_def)
  have m: "validMethod (method' (https_uploader []))"
    by (simp add: https_uploader_def sample_uploader_def validMethod_PUT)
  note r = NewRequest_ok [OF m https_Parse, where f = "sample_file bs"]
  have tr: "chooseTransport sample_platform (https_uploader [])
      \<lparr>Scheme = ''https'', Host = ''example.test'', Path = ''/upload''\<rparr> = Inr https_transport"
    by (simp add: chooseTransport_def getHTTPTransport_def https_uploader_def sample_uploader_def
        https_transport_def VersionTLS12_def VersionTLS13_def)
  have q: "https_request bs = (withHeaders [] (https_uploader [])
      \<lparr>Method = method' (https_uploader []),
       Target = \<lparr>Scheme = ''https'', Host = ''example.test'', Path = ''/upload''\<rparr>,
       Header = Map.empty, Body = sample_file bs, ContentLength = 0\<rparr>)
      \<lparr>ContentLength := Size \<lparr>Size = int (length bs)\<rparr>, Body := sample_file bs\<rparr>"
    by (simp add: https_request_def sample_request_def withHeaders_def setHeaders_def
        Header_Set_def ct https_uploader_def sample_uploader_def)
  have d: "client_Do sample_platform https_transport (https_request bs) = Inr created"
    by (simp add: sample_platform_def created_def)
  have "UploadFile sample_platform [] (https_uploader []) (sample_file bs) False listener s =
     \<lparr>outcome = Returns (classify (client_Do sample_platform https_transport (https_request bs))),
      exchanges = [(https_transport, https_request bs,
                    client_Do sample_platform https_transport (https_request bs))],
      listened = s\<rparr>"
    by (rule UploadFile_sends_plain [OF sample_Stat r https_Parse tr _ q]) simp
  then show ?thesis by (simp add: d classify_def created_def)
qed

theorem UploadFile_https_transport_witness:
  "exchanges (UploadFile sample_platform [] (https_uploader ''/etc/ssl/ca.pem'')
      (sample_file [1, 2, 3]) False record_progress []) = []
   \<and> outcome (UploadFile sample_platform [] (https_uploader ''/etc/ssl/ca.pem'')
      (sample_file [1, 2, 3]) False record_progress []) =
        Returns (Some (PathError ''open'' ''/etc/ssl/ca.pem''))
   \<and> exchanges (UploadFile sample_platform [] (https_uploader [])
      (sample_file [1, 2, 3]) False record_progress []) =
        [(https_transport, https_request [1, 2, 3], Inr created)]
   \<and> getHTTPTransport sample_platform (https_uploader []) = Inr https_transport
   \<and> (\<exists>config. TLSClientConfig https_transport = Some config
         \<and> MinVersion config = 0x0303 \<and> MaxVersion config = 0x0304
         \<and> \<not> InsecureSkipVerify config
         \<and> CipherSuites config = [0x1301, 0xc02f]
         \<and> RootCAs config = None)"
proof -
  have s: "Scheme \<lparr>Scheme = ''https'', Host = ''example.test'', Path = ''/upload''\<rparr> = ''https''"
    by simp
  note w1 = UploadFile_https_transport [OF https_Parse s, of "''/etc/ssl/ca.pem''" "[]"
      "sample_file [1, 2, 3]" False record_progress "[]"]
  note w2 = UploadFile_https_transport [OF https_Parse s, of "[]" "[]"
      "sample_file [1, 2, 3]" False record_progress "[]"]
  have c: "serverCert (https_uploader ''/etc/ssl/ca.pem'') \<noteq> []
      \<and> ioutil_ReadFile sample_platform (serverCert (https_uploader ''/etc/ssl/ca.pem'')) =
          Inl (PathError ''open'' ''/etc/ssl/ca.pem'')
      \<and> (method' (https_uploader ''/etc/ssl/ca.pem'') = ''PUT''
          \<or> method' (https_uploader ''/etc/ssl/ca.pem'') = ''POST'')"
    by (simp add: https_uploader_def sample_uploader_def sample_platform_def)
  from w1 c have a: "exchanges (UploadFile sample_platform [] (https_uploader ''/etc/ssl/ca.pem'')
      (sample_file [1, 2, 3]) False record_progress []) = []
   \<and> outcome (UploadFile sample_platform [] (https_uploader ''/etc/ssl/ca.pem'')
      (sample_file [1, 2, 3]) False record_progress []) =
        Returns (Some (case Stat (sample_file [1, 2, 3]) of
                         Inl e \<Rightarrow> e
                       | Inr stats \<Rightarrow> PathError ''open'' ''/etc/ssl/ca.pem''))"
    by blast
  have e: "exchanges (UploadFile sample_platform [] (https_uploader [])
      (sample_file [1, 2, 3]) False record_progress []) =
        [(https_transport, https_request [1, 2, 3], Inr created)]"
    by (simp add: https_upload)
  then have "(https_transport, https_request [1, 2, 3], Inr created) \<in> set (exchanges
      (UploadFile sample_platform [] (https_uploader [])
      (sample_file [1, 2, 3]) False record_progress []))"
    by simp
  with w2 have g: "getHTTPTransport sample_platform (https_uploader []) = Inr https_transport"
    by blast
  with w2 have "\<exists>config. TLSClientConfig https_transport = Some config
               \<and> MinVersion config = VersionTLS12 \<and> MaxVersion config = VersionTLS13
               \<and> \<not> InsecureSkipVerify config
               \<and> CipherSuites config = cipherSuites (https_uploader [])
               \<and> (serverCert (https_uploader []) = [] \<longrightarrow> RootCAs config = None)"
    by blast
  then have k: "\<exists>config. TLSClientConfig https_transport = Some config
         \<and> MinVersion config = 0x0303 \<and> MaxVersion config = 0x0304
         \<and> \<not> InsecureSkipVerify config
         \<and> CipherSuites config = [0x1301, 0xc02f]
         \<and> RootCAs config = None"
    by (simp add: VersionTLS12_def VersionTLS13_def https_uploader_def sample_uploader_def)
  from a e g k show ?thesis by (simp add: sample_Stat)
qed

subsection \<open>The request\<close>

lemma canon_Content_Type: "CanonicalMIMEHeaderKey ''Content-Type'' = ''Content-Type''"
  by (simp add: CanonicalMIMEHeaderKey_def isTokenByte_def toUpperByte_def toLowerByte_def
      char_eval Let_def)

lemma canon_ContentMD5: "CanonicalMIMEHeaderKey ContentMD5 = ''Content-Md5''"
  by (simp add: ContentMD5_def CanonicalMIMEHeaderKey_def isTokenByte_def toUpperByte_def
      toLowerByte_def char_eval Let_def)

lemma canon_x_foo: "CanonicalMIMEHeaderKey ''x-foo'' = ''X-Foo''"
  by (simp add: CanonicalMIMEHeaderKey_def isTokenByte_def toUpperByte_def toLowerByte_def
      char_eval Let_def)

lemma NewRequest_Header:
  assumes "NewRequest env m target f = Inr req"
  shows "Header req = Map.empty"
  using assms by (auto simp: NewRequest_def Let_def split: if_splits sum.splits)

lemma ComputeMD5_success:
  assumes "ComputeMD5 f True = (Inr md5, f')"
  shows "md5 = EncodeToString (md5_sum (drop (offset f) (content f)))"
proof (cases "read_err f")
  case None
  with assms show ?thesis by (simp add: ComputeMD5_ok)
next
  case (Some err)
  with assms show ?thesis by (simp add: ComputeMD5_fails)
qed

lemma withHeaders_frame:
  "Method (withHeaders hs u req) = Method req
   \<and> Target (withHeaders hs u req) = Target req
   \<and> Body (withHeaders hs u req) = Body req
   \<and> ContentLength (withHeaders hs u req) = ContentLength req"
  by (simp add: withHeaders_def setHeaders_frame)

lemma withHeaders_Header:
  assumes "Header req = Map.empty"
  shows "(Header (withHeaders hs u req) k =
            (if k = ''Content-Type'' then Some [''application/x-binary''] else None)
          \<and> (\<forall>name\<in>set hs. headers u name = None \<or> CanonicalMIMEHeaderKey name \<noteq> k))
       \<or> (\<exists>name\<in>set hs. \<exists>v. headers u name = Some v \<and> CanonicalMIMEHeaderKey name = k
             \<and> Header (withHeaders hs u req) k = Some [v])"
  using setHeaders_Header [of hs "headers u"
      "req\<lparr>Header := Header_Set (Header req) ''Content-Type'' ''application/x-binary''\<rparr>" k]
    assms
  by (simp add: withHeaders_def Header_Set_def canon_Content_Type)

lemma UploadFile_sent_request:
  assumes "(t, q, x) \<in> set (exchanges (UploadFile env hs u file useChecksum listener s))"
  shows "\<exists>stats req. Stat file = Inr stats \<and> Header req = Map.empty
     \<and> ContentLength q = Size stats
     \<and> Header q = (if useChecksum
                    then Header_Set (Header (withHeaders hs u req)) ContentMD5
                           (EncodeToString (md5_sum (drop (offset file) (content file))))
                    else Header (withHeaders hs u req))"
proof (cases rule: UploadFile_cases
    [where fl = "file" and env = "env" and u = "u" and useChecksum = "useChecksum"])
  case (stat_fails err)
  with assms show ?thesis by (simp add: UploadFile_stat_fails)
next
  case (request_fails stats err)
  with assms show ?thesis by (simp add: UploadFile_request_fails)
next
  case (parse_fails stats req err)
  with assms show ?thesis by (simp add: UploadFile_parse_fails)
next
  case (transport_fails stats req parsedURL err)
  with assms show ?thesis by (simp add: UploadFile_transport_fails)
next
  case (checksum_fails stats req parsedURL t' err file')
  with assms show ?thesis by (simp add: UploadFile_checksum_fails)
next
  case (sends_checksum stats req parsedURL t' md5 file')
  from assms have "q = (withHeaders hs u req)
      \<lparr>Header := Header_Set (Header (withHeaders hs u req)) ContentMD5 md5,
       ContentLength := Size stats, Body := file'\<rparr>"
    unfolding UploadFile_sends_checksum [OF sends_checksum refl] by simp
  with sends_checksum show ?thesis
    using NewRequest_Header [OF sends_checksum(2)] ComputeMD5_success [OF sends_checksum(6)]
    by auto
next
  case (sends_plain stats req parsedURL t')
  from assms have "q = (withHeaders hs u req)\<lparr>ContentLength := Size stats, Body := file\<rparr>"
    unfolding UploadFile_sends_plain [OF sends_plain refl] by simp
  with sends_plain show ?thesis
    using NewRequest_Header [OF sends_plain(2)] by auto
qed

text \<open>
  C5 as stated fails: with the checksum flag off, an uploader configured with the custom header
  \<open>Content-MD5\<close> sends a request that carries a \<open>Content-MD5\<close> header, and here its value is the
  base64 MD5 digest of the content of the file.
\<close>

theorem UploadFile_checksum_header_counterexample:
  "map checksumHeader (requests (UploadFile sample_platform [''Content-MD5''] md5_uploader
      (sample_file [0x61]) False record_progress [])) =
     [EncodeToString (md5_sum (content (sample_file [0x61])))]"
proof -
  let ?req = "\<lparr>Method = ''PUT'',
          Target = \<lparr>Scheme = ''http'', Host = ''example.test'', Path = ''/upload''\<rparr>,
          Header = Map.empty, Body = sample_file [0x61], ContentLength = 0\<rparr>"
  let ?q = "(withHeaders [''Content-MD5''] md5_uploader ?req)
      \<lparr>ContentLength := Size \<lparr>Size = int (length [0x61 :: byte])\<rparr>, Body := sample_file [0x61]\<rparr>"
  have p: "url_Parse sample_platform (url md5_uploader) =
      Inr \<lparr>Scheme = ''http'', Host = ''example.test'', Path = ''/upload''\<rparr>"
    by (simp add: sample_platform_def sample_Parse_def sample_uploader_def md5_uploader_def)
  have m: "validMethod (method' md5_uploader)"
    by (simp add: md5_uploader_def sample_uploader_def validMethod_PUT)
  have r: "NewRequest sample_platform (method' md5_uploader) (url md5_uploader)
      (sample_file [0x61]) = Inr ?req"
    using NewRequest_ok [OF m p, where f = "sample_file [0x61]"]
    by (simp add: md5_uploader_def sample_uploader_def)
  have tr: "chooseTransport sample_platform md5_uploader
      \<lparr>Scheme = ''http'', Host = ''example.test'', Path = ''/upload''\<rparr> = Inr plain_transport"
    by (simp add: chooseTransport_def plain_transport_def)
  have "UploadFile sample_platform [''Content-MD5''] md5_uploader (sample_file [0x61]) False
      record_progress [] =
     \<lparr>outcome = Returns (classify (client_Do sample_platform plain_transport ?q)),
      exchanges = [(plain_transport, ?q, client_Do sample_platform plain_transport ?q)],
      listened = []\<rparr>"
    by (rule UploadFile_sends_plain [OF sample_Stat r p tr _ refl]) simp
  then have "map checksumHeader (requests (UploadFile sample_platform [''Content-MD5'']
      md5_uploader (sample_file [0x61]) False record_progress [])) = [checksumHeader ?q]"
    by (simp add: requests_def)
  moreover have "checksumHeader ?q = ''DMF1ucDxtqgxw5niaXcmYQ==''"
    using canon_ContentMD5
    by (simp add: checksumHeader_def Header_Get_def withHeaders_def setHeaders_def
        Header_Set_def md5_uploader_def ContentMD5_def)
  ultimately show ?thesis
    by (simp add: sample_file_def EncodeToString_md5_a)
qed

text \<open>
  C5, amended. A request that \<open>UploadFile\<close> sends has the size of the file from its metadata as
  its declared content length. Its \<open>Content-Type\<close> is \<open>application/x-binary\<close> unless a custom
  header has that canonical name; every custom header is overlaid after it, so the canonical
  name of each custom header carries the value of a custom header of that name (the checksum
  header, set last, takes precedence under its own name). With the checksum flag on, the
  request carries under \<open>Content-MD5\<close> the base64 MD5 digest of the content of the file, read
  from the position of the handle (the whole content for a handle at its start). With the flag
  off, the request has a \<open>Content-MD5\<close> header if and only if a custom header has that canonical
  name.
\<close>

theorem UploadFile_request_contract:
  assumes sent: "(t, q, x) \<in> set (exchanges (UploadFile env hs u file useChecksum listener s))"
    and hs: "set hs = dom (headers u)"
  shows "ContentLength q = int (length (content file))
       \<and> (\<exists>stats. Stat file = Inr stats \<and> ContentLength q = Size stats)
       \<and> ((\<forall>name value. headers u name = Some value \<longrightarrow>
               CanonicalMIMEHeaderKey name \<noteq> ''Content-Type'') \<longrightarrow>
            Header q ''Content-Type'' = Some [''application/x-binary''])
       \<and> (\<forall>name value. headers u name = Some value \<longrightarrow>
             (useChecksum \<and> CanonicalMIMEHeaderKey name = CanonicalMIMEHeaderKey ContentMD5)
             \<or> (\<exists>name' value'. headers u name' = Some value'
                   \<and> CanonicalMIMEHeaderKey name' = CanonicalMIMEHeaderKey name
                   \<and> Header q (CanonicalMIMEHeaderKey name) = Some [value']))
       \<and> (useChecksum \<longrightarrow>
             Header q (CanonicalMIMEHeaderKey ContentMD5) =
               Some [EncodeToString (md5_sum (drop (offset file) (content file)))]
             \<and> checksumHeader q = EncodeToString (md5_sum (drop (offset file) (content file))))
       \<and> (\<not> useChecksum \<longrightarrow>
             (Header q (CanonicalMIMEHeaderKey ContentMD5) = None
              \<longleftrightarrow> (\<forall>name value. headers u name = Some value \<longrightarrow>
                     CanonicalMIMEHeaderKey name \<noteq> CanonicalMIMEHeaderKey ContentMD5)))"
proof -
  let ?digest = "EncodeToString (md5_sum (drop (offset file) (content file)))"
  from UploadFile_sent_request [OF sent]
  obtain stats req where stat: "Stat file = Inr stats" and empty: "Header req = Map.empty"
    and len: "ContentLength q = Size stats"
    and hq: "Header q = (if useChecksum
                    then Header_Set (Header (withHeaders hs u req)) ContentMD5 ?digest
                    else Header (withHeaders hs u req))"
    by blast
  let ?H = "Header (withHeaders hs u req)"
  note wh = withHeaders_Header [OF empty, of hs u]
  have q_other: "Header q k = ?H k" if "\<not> useChecksum \<or> k \<noteq> ''Content-Md5''" for k
    using that by (auto simp: hq Header_Set_def canon_ContentMD5)
  have q_md5: "Header q ''Content-Md5'' = Some [?digest]" if "useChecksum"
    using that by (simp add: hq Header_Set_def canon_ContentMD5)
  have size: "Size stats = int (length (content file))"
    using stat by (auto simp: Stat_def split: option.splits)
  have c1: "ContentLength q = int (length (content file))" using len size by simp
  have c2: "\<exists>stats. Stat file = Inr stats \<and> ContentLength q = Size stats"
    using stat len by blast
  have c3: "Header q ''Content-Type'' = Some [''application/x-binary'']"
    if "\<forall>name value. headers u name = Some value \<longrightarrow>
               CanonicalMIMEHeaderKey name \<noteq> ''Content-Type''"
  proof -
    from wh [of "''Content-Type''"] that
    have "?H ''Content-Type'' = Some [''application/x-binary'']" by auto
    then show ?thesis using q_other [of "''Content-Type''"] by simp
  qed
  have c4: "(useChecksum \<and> CanonicalMIMEHeaderKey name = CanonicalMIMEHeaderKey ContentMD5)
             \<or> (\<exists>name' value'. headers u name' = Some value'
                   \<and> CanonicalMIMEHeaderKey name' = CanonicalMIMEHeaderKey name
                   \<and> Header q (CanonicalMIMEHeaderKey name) = Some [value'])"
    if n: "headers u name = Some v" for name v
  proof (cases "useChecksum \<and> CanonicalMIMEHeaderKey name = CanonicalMIMEHeaderKey ContentMD5")
    case True
    then show ?thesis by simp
  next
    case False
    from n hs have "name \<in> set hs" by auto
    with wh [of "CanonicalMIMEHeaderKey name"] n
    obtain name' v' where "headers u name' = Some v'"
      "CanonicalMIMEHeaderKey name' = CanonicalMIMEHeaderKey name"
      "?H (CanonicalMIMEHeaderKey name) = Some [v']"
      by auto
    moreover from False have "Header q (CanonicalMIMEHeaderKey name) = ?H (CanonicalMIMEHeaderKey name)"
      using q_other [of "CanonicalMIMEHeaderKey name"] by (auto simp: canon_ContentMD5)
    ultimately show ?thesis by auto
  qed
  have c5: "Header q (CanonicalMIMEHeaderKey ContentMD5) = Some [?digest]
             \<and> checksumHeader q = ?digest" if "useChecksum"
    using q_md5 [OF that] by (simp add: canon_ContentMD5 checksumHeader_def Header_Get_def)
  have c6: "Header q (CanonicalMIMEHeaderKey ContentMD5) = None
              \<longleftrightarrow> (\<forall>name value. headers u name = Some value \<longrightarrow>
                     CanonicalMIMEHeaderKey name \<noteq> CanonicalMIMEHeaderKey ContentMD5)"
    if "\<not> useChecksum"
  proof -
    have e: "Header q ''Content-Md5'' = ?H ''Content-Md5''"
      using that q_other by simp
    show ?thesis
    proof
      assume "Header q (CanonicalMIMEHeaderKey ContentMD5) = None"
      with e have "?H ''Content-Md5'' = None" by (simp add: canon_ContentMD5)
      with wh [of "''Content-Md5''"] hs
      show "\<forall>name value. headers u name = Some value \<longrightarrow>
                     CanonicalMIMEHeaderKey name \<noteq> CanonicalMIMEHeaderKey ContentMD5"
        by (auto simp: canon_ContentMD5)
    next
      assume "\<forall>name value. headers u name = Some value \<longrightarrow>
                     CanonicalMIMEHeaderKey name \<noteq> CanonicalMIMEHeaderKey ContentMD5"
      with wh [of "''Content-Md5''"] have "?H ''Content-Md5'' = None"
        by (auto simp: canon_ContentMD5)
      with e show "Header q (CanonicalMIMEHeaderKey ContentMD5) = None"
        by (simp add: canon_ContentMD5)
    qed
  qed
  from c1 c2 c3 c4 c5 c6 show ?thesis by blast
qed

theorem UploadFile_request_contract_witness:
  "(\<exists>t q x. exchanges (UploadFile sample_platform [''x-foo''] foo_uploader (sample_file [0x61])
        True record_progress []) = [(t, q, x)]
      \<and> ContentLength q = 1
      \<and> Header q ''Content-Type'' = Some [''application/x-binary'']
      \<and> Header q ''X-Foo'' = Some [''bar'']
      \<and> Header q ''Content-Md5'' = Some [''DMF1ucDxtqgxw5niaXcmYQ=='']
      \<and> checksumHeader q = ''DMF1ucDxtqgxw5niaXcmYQ=='')
   \<and> exchanges (UploadFile sample_platform [] sample_uploader (sample_file [0x61])
        False record_progress []) = [(plain_transport, sample_request [0x61], Inr created)]
   \<and> ContentLength (sample_request [0x61]) = 1
   \<and> Header (sample_request [0x61]) ''Content-Md5'' = None"
proof -
  let ?req = "\<lparr>Method = ''PUT'',
          Target = \<lparr>Scheme = ''http'', Host = ''example.test'', Path = ''/upload''\<rparr>,
          Header = Map.empty, Body = sample_file [0x61], ContentLength = 0\<rparr>"
  define q where "q = (withHeaders [''x-foo''] foo_uploader ?req)
      \<lparr>Header := Header_Set (Header (withHeaders [''x-foo''] foo_uploader ?req)) ContentMD5
          ''DMF1ucDxtqgxw5niaXcmYQ=='',
       ContentLength := Size \<lparr>Size = int (length [0x61 :: byte])\<rparr>, Body := sample_file [0x61]\<rparr>"
  have p: "url_Parse sample_platform (url foo_uploader) =
      Inr \<lparr>Scheme = ''http'', Host = ''example.test'', Path = ''/upload''\<rparr>"
    by (simp add: sample_platform_def sample_Parse_def sample_uploader_def foo_uploader_def)
  have m: "validMethod (method' foo_uploader)"
    by (simp add: foo_uploader_def sample_uploader_def validMethod_PUT)
  have r: "NewRequest sample_platform (method' foo_uploader) (url foo_uploader)
      (sample_file [0x61]) = Inr ?req"
    using NewRequest_ok [OF m p, where f = "sample_file [0x61]"]
    by (simp add: foo_uploader_def sample_uploader_def)
  have tr: "chooseTransport sample_platform foo_uploader
      \<lparr>Scheme = ''http'', Host = ''example.test'', Path = ''/upload''\<rparr> = Inr plain_transport"
    by (simp add: chooseTransport_def plain_transport_def)
  have c: "ComputeMD5 (sample_file [0x61]) True =
      (Inr ''DMF1ucDxtqgxw5niaXcmYQ=='', sample_file [0x61])"
    by (simp add: ComputeMD5_ok sample_file_def EncodeToString_md5_a)
  have e: "exchanges (UploadFile sample_platform [''x-foo''] foo_uploader (sample_file [0x61])
        True record_progress []) = [(plain_transport, q, client_Do sample_platform plain_transport q)]"
    by (simp add: UploadFile_sends_checksum [OF sample_Stat r p tr _ c q_def])
  then have sent: "(plain_transport, q, client_Do sample_platform plain_transport q) \<in> set
      (exchanges (UploadFile sample_platform [''x-foo''] foo_uploader (sample_file [0x61])
        True record_progress []))"
    by simp
  have hs: "set [''x-foo''] = dom (headers foo_uploader)"
    by (simp add: foo_uploader_def)
  note w = UploadFile_request_contract [OF sent hs]
  have only: "headers foo_uploader name = Some v \<longleftrightarrow> name = ''x-foo'' \<and> v = ''bar''" for name v
    by (auto simp: foo_uploader_def)
  from w have a1: "ContentLength q = 1" by (simp add: sample_file_def)
  have "\<forall>name v. headers foo_uploader name = Some v \<longrightarrow>
      CanonicalMIMEHeaderKey name \<noteq> ''Content-Type''"
    by (simp add: only canon_x_foo)
  with w have a2: "Header q ''Content-Type'' = Some [''application/x-binary'']" by blast
  from w have "(True \<and> CanonicalMIMEHeaderKey ''x-foo'' = CanonicalMIMEHeaderKey ContentMD5)
      \<or> (\<exists>name' v'. headers foo_uploader name' = Some v'
            \<and> CanonicalMIMEHeaderKey name' = CanonicalMIMEHeaderKey ''x-foo''
            \<and> Header q (CanonicalMIMEHeaderKey ''x-foo'') = Some [v'])"
    using only [of "''x-foo''" "''bar''"] by blast
  then have a3: "Header q ''X-Foo'' = Some [''bar'']"
    by (auto simp: only canon_x_foo canon_ContentMD5)
  from w have a4: "Header q ''Content-Md5'' = Some [''DMF1ucDxtqgxw5niaXcmYQ=='']"
    and a5: "checksumHeader q = ''DMF1ucDxtqgxw5niaXcmYQ==''"
    by (simp_all add: canon_ContentMD5 sample_file_def EncodeToString_md5_a)
  have e': "exchanges (UploadFile sample_platform [] sample_uploader (sample_file [0x61])
        False record_progress []) = [(plain_transport, sample_request [0x61], Inr created)]"
    using sample_upload [of "\<lambda>t q. Inr created" "[0x61]" record_progress "[]"]
    by (simp add: sample_platform_Do)
  then have sent': "(plain_transport, sample_request [0x61], Inr created) \<in> set
      (exchanges (UploadFile sample_platform [] sample_uploader (sample_file [0x61])
        False record_progress []))"
    by simp
  have hs': "set [] = dom (headers sample_uploader)"
    by (simp add: sample_uploader_def)
  note w' = UploadFile_request_contract [OF sent' hs']
  from w' have b1: "ContentLength (sample_request [0x61]) = 1" by (simp add: sample_file_def)
  from w' have b2: "Header (sample_request [0x61]) ''Content-Md5'' = None"
    by (simp add: canon_ContentMD5 sample_uploader_def)
  from e a1 a2 a3 a4 a5 e' b1 b2 show ?thesis by blast
qed

end
